theory Spec2Isabelle
  imports Main "HOL-Library.Sublist"
begin

section \<open>The command-line shell of lazycodr: \<open>src/lazycodr/cli/config.py\<close>\<close>

text \<open>
  The module keeps one credentials file at a fixed path, asks the user through
  \<open>typer.prompt\<close> and \<open>typer.confirm\<close>, prints through \<open>console.print\<close> and calls the
  credential manager of \<open>lazycodr.utils.credentials\<close>. The model threads a \<open>world\<close>
  through every function: what is stored at \<open>CREDENTIALS_FILE\<close>, the answers the user
  is going to give, and the trace of effects in the order the code performs them.
\<close>

subsection \<open>Exceptions\<close>

text \<open>
  The exception classes the module names or can meet, each with its message.
  \<open>except (TypeError, ValueError)\<close> matches the first two, \<open>except IncorrectPasswordError\<close>
  the third; \<open>FileNotFoundError\<close> is what \<open>os.unlink\<close> raises on a missing path,
  \<open>MarkupError\<close> is what \<open>console.print\<close> raises on a text whose markup it cannot parse
  (it carries that text), \<open>Abort\<close> is \<open>typer.Abort\<close>, and \<open>OtherError cls msg\<close> stands
  for an instance of any class that is none of these. An instance of a subclass counts as an instance of its
  base class, as \<open>except\<close> has it; \<open>IncorrectPasswordError\<close> comes from the manager's
  module and is taken not to derive from \<open>TypeError\<close> or \<open>ValueError\<close>.
\<close>

datatype py_exn =
    TypeError string
  | ValueError string
  | IncorrectPasswordError string
  | FileNotFoundError string
  | MarkupError string
  | Abort
  | OtherError string string

text \<open>\<open>str(e)\<close> and \<open>e.message\<close>: the message the exception was built with.\<close>

fun str_exn :: "py_exn \<Rightarrow> string" where
  "str_exn (TypeError m) = m"
| "str_exn (ValueError m) = m"
| "str_exn (IncorrectPasswordError m) = m"
| "str_exn (FileNotFoundError m) = m"
| "str_exn (MarkupError m) = m"
| "str_exn Abort = []"
| "str_exn (OtherError c m) = m"

text \<open>The test of the clause \<open>except (TypeError, ValueError)\<close>.\<close>

fun is_type_or_value_error :: "py_exn \<Rightarrow> bool" where
  "is_type_or_value_error (TypeError m) = True"
| "is_type_or_value_error (ValueError m) = True"
| "is_type_or_value_error e = False"

text \<open>The test of the clause \<open>except IncorrectPasswordError\<close>.\<close>

fun is_incorrect_password :: "py_exn \<Rightarrow> bool" where
  "is_incorrect_password (IncorrectPasswordError m) = True"
| "is_incorrect_password e = False"

subsection \<open>The world: file, user, console, trace\<close>

text \<open>
  Every effect of the module is recorded: \<open>EvLoad f p\<close> is a call of
  \<open>CredentialsManager.load(CREDENTIALS_FILE, p)\<close> made while the path held \<open>f\<close>
  (\<open>None\<close>: no file there), \<open>EvSave c\<close> a call of \<open>cm.save(CREDENTIALS_FILE)\<close> that
  wrote \<open>c\<close>.
\<close>

datatype 'f event =
    EvPrint string
  | EvPrompt string
  | EvConfirm string
  | EvLoad "'f option" string
  | EvUnlink
  | EvNew string
  | EvSetItem string string
  | EvUpdatePassword string string
  | EvSave 'f

text \<open>
  \<open>stored\<close> is what the path \<open>CREDENTIALS_FILE\<close> holds, \<open>answers\<close> are the lines the user is
  going to type at the prompts, \<open>confirms\<close> the answers to the yes/no questions.
  \<open>renders\<close> is the markup parser of the console: \<open>rich\<close> is a library, so which texts
  with markup it accepts is a parameter. It is asked only about a text that contains
  an opening bracket, since \<open>rich\<close> prints a text without one as it is.
\<close>

record 'f world =
  stored :: "'f option"
  answers :: "string list"
  confirms :: "bool list"
  trace :: "'f event list"
  renders :: "string \<Rightarrow> bool"

definition emit :: "'f event \<Rightarrow> 'f world \<Rightarrow> 'f world" where
  "emit e w = w\<lparr>trace := trace w @ [e]\<rparr>"

text \<open>
  \<open>console.print(s, style=...)\<close> parses \<open>s\<close> as markup before it prints: a text that has
  an opening bracket and does not parse, such as one with a closing tag \<open>[/b]\<close> that
  matches no open tag, raises \<open>MarkupError\<close> and prints nothing. The style is a constant
  of the module and does not change this.
\<close>

definition markup_fails :: "'f world \<Rightarrow> string \<Rightarrow> bool" where
  "markup_fails w s \<longleftrightarrow> CHR ''['' \<in> set s \<and> \<not> renders w s"

definition console_print :: "string \<Rightarrow> 'f world \<Rightarrow> (py_exn + unit) \<times> 'f world" where
  "console_print s w =
     (if markup_fails w s then (Inl (MarkupError s), w)
      else (Inr (), emit (EvPrint s) w))"

text \<open>A statement \<open>console.print(s)\<close> followed by the rest \<open>k\<close> of the block it stands in.\<close>

definition after_print ::
  "string \<Rightarrow> 'f world \<Rightarrow> ('f world \<Rightarrow> (py_exn + 'a) \<times> 'f world) \<Rightarrow> (py_exn + 'a) \<times> 'f world" where
  "after_print s w k =
     (case console_print s w of
        (Inl e, w1) \<Rightarrow> (Inl e, w1)
      | (Inr u, w1) \<Rightarrow> k w1)"

text \<open>
  \<open>typer.prompt(text, hide_input=True)\<close> is called without a default: on an empty line it
  asks again inside the same call, so it never returns the empty string. It returns
  the next line that is not empty, and raises \<open>Abort\<close> when the input ends first.
\<close>

definition typer_prompt :: "string \<Rightarrow> 'f world \<Rightarrow> (py_exn + string) \<times> 'f world" where
  "typer_prompt text w =
     (let w1 = emit (EvPrompt text) w in
      case dropWhile (\<lambda>a. a = []) (answers w1) of
        [] \<Rightarrow> (Inl Abort, w1\<lparr>answers := []\<rparr>)
      | a # rest \<Rightarrow> (Inr a, w1\<lparr>answers := rest\<rparr>))"

text \<open>\<open>typer.confirm(text)\<close>: the next yes/no answer; \<open>Abort\<close> at the end of the input.\<close>

definition typer_confirm :: "string \<Rightarrow> 'f world \<Rightarrow> (py_exn + bool) \<times> 'f world" where
  "typer_confirm text w =
     (let w1 = emit (EvConfirm text) w in
      case confirms w1 of
        [] \<Rightarrow> (Inl Abort, w1)
      | b # rest \<Rightarrow> (Inr b, w1\<lparr>confirms := rest\<rparr>))"

text \<open>\<open>os.unlink(str(CREDENTIALS_FILE))\<close>: removes the file, or raises when there is none.\<close>

definition os_unlink :: "'f world \<Rightarrow> (py_exn + unit) \<times> 'f world" where
  "os_unlink w =
     (case stored w of
        None \<Rightarrow> (Inl (FileNotFoundError ''No such file or directory''), w)
      | Some c \<Rightarrow> (Inr (), emit EvUnlink (w\<lparr>stored := None\<rparr>)))"

subsection \<open>The credential manager the module imports\<close>

text \<open>
  \<open>lazycodr.utils.credentials\<close> is imported, not defined, by the module, so its
  operations are parameters of the model: \<open>core_load f p\<close> is
  \<open>CredentialsManager.load(CREDENTIALS_FILE, p)\<close> on a path holding \<open>f\<close> (it reads and
  does not write), \<open>core_new p\<close> is \<open>CredentialsManager(p)\<close>, \<open>core_setitem\<close> is
  \<open>cm[k] = v\<close>, \<open>core_update_password\<close> is \<open>cm.update_password(old, new)\<close> and
  \<open>core_save cm\<close> is what \<open>cm.save(CREDENTIALS_FILE)\<close> leaves at the path.
\<close>

record ('m, 'f) core =
  core_load :: "'f option \<Rightarrow> string \<Rightarrow> py_exn + 'm"
  core_new :: "string \<Rightarrow> 'm"
  core_setitem :: "'m \<Rightarrow> string \<Rightarrow> string \<Rightarrow> 'm"
  core_update_password :: "'m \<Rightarrow> string \<Rightarrow> string \<Rightarrow> py_exn + 'm"
  core_save :: "'m \<Rightarrow> 'f"

text \<open>\<open>cm.save(CREDENTIALS_FILE)\<close> as the shell sees it: the path now holds the saved file.\<close>

definition cm_save :: "('m, 'f) core \<Rightarrow> 'm \<Rightarrow> 'f world \<Rightarrow> 'f world" where
  "cm_save core cm w =
     emit (EvSave (core_save core cm)) (w\<lparr>stored := Some (core_save core cm)\<rparr>)"

subsection \<open>Module level\<close>

text \<open>
  \<open>CREDENTIALS_EXIST\<close> and \<open>PSWD_PROMPT\<close> are assigned once, when the module is
  imported; the commands read them and nothing assigns them again.
\<close>

record module_globals =
  CREDENTIALS_EXIST :: bool
  PSWD_PROMPT :: string

definition import_module :: "'f world \<Rightarrow> module_globals" where
  "import_module w =
     (let ex = (stored w \<noteq> None) in
      \<lparr>CREDENTIALS_EXIST = ex,
       PSWD_PROMPT =
         (if ex then ''Confirm your password''
          else ''Please setup a password so your credentials can be encrypted''
               @ [CHR 0x0A] @ ''Password'')\<rparr>)"

subsection \<open>\<open>get_exisiting_cm\<close>\<close>

definition get_exisiting_cm ::
  "('m, 'f) core \<Rightarrow> string \<Rightarrow> 'f world \<Rightarrow> (py_exn + 'm option) \<times> 'f world" where
  "get_exisiting_cm core password w =
     (let w0 = emit (EvLoad (stored w) password) w in
      case core_load core (stored w) password of
        Inr cm \<Rightarrow> (Inr (Some cm), w0)
      | Inl e \<Rightarrow>
          if is_type_or_value_error e then
            after_print ''Oh no! The credentials file is corrupted.'' w0 (\<lambda>w1.
            after_print (''Error: '' @ str_exn e) w1 (\<lambda>w2.
            case os_unlink w2 of
              (Inl ex, w3) \<Rightarrow> (Inl ex, w3)
            | (Inr u, w3) \<Rightarrow>
                after_print
                  ''For the security of your credentials, it has now been deleted'' w3 (\<lambda>w4.
                after_print
                  ''Please recreate your credentials with the following command'' w4 (\<lambda>w5.
                after_print ''  lazycodr config credentials'' w5 (\<lambda>w6.
                (Inr None, w6))))))
          else if is_incorrect_password e then
            after_print (str_exn e) w0 (\<lambda>w1. (Inr None, w1))
          else (Inl e, w0))"

subsection \<open>The command \<open>credentials\<close>\<close>

definition credentials ::
  "('m, 'f) core \<Rightarrow> module_globals \<Rightarrow> string \<Rightarrow> string \<Rightarrow> string \<Rightarrow> 'f world
     \<Rightarrow> (py_exn + unit) \<times> 'f world" where
  "credentials core g openai_api_key github_token password w =
     (let finish = (\<lambda>cm w1.
            (let w2 = emit (EvSetItem ''openai_api_key'' openai_api_key) w1;
                 cm2 = core_setitem core cm ''openai_api_key'' openai_api_key;
                 w3 = emit (EvSetItem ''github_token'' github_token) w2;
                 cm3 = core_setitem core cm2 ''github_token'' github_token;
                 w4 = cm_save core cm3 w3
             in after_print ''Credentials securely saved'' w4 (\<lambda>w5. (Inr (), w5))))
      in if CREDENTIALS_EXIST g then
           (case get_exisiting_cm core password w of
              (Inl e, w1) \<Rightarrow> (Inl e, w1)
            | (Inr None, w1) \<Rightarrow> (Inr (), w1)
            | (Inr (Some cm), w1) \<Rightarrow> finish cm w1)
         else finish (core_new core password) (emit (EvNew password) w))"

subsection \<open>The command \<open>update_password\<close>\<close>

text \<open>\<open>str(n)\<close> for a natural number, as the f-string \<open>{i+1}\<close> formats it.\<close>

fun str_nat :: "nat \<Rightarrow> string" where
  "str_nat n =
     (if n < 10 then [char_of (48 + n)]
      else str_nat (n div 10) @ [char_of (48 + n mod 10)])"

declare str_nat.simps [simp del]

definition current_password_prompt :: "nat \<Rightarrow> string" where
  "current_password_prompt i =
     (if i = 0 then ''Enter current password''
      else ''Enter current password (Attempt '' @ str_nat (i + 1) @ '' / 3)'')"

text \<open>
  The loop \<open>for i in range(3)\<close> of \<open>update_password\<close>, over the values of \<open>i\<close> still to
  come. \<open>Inr (Some (curr_password, cm))\<close> is the \<open>break\<close>; \<open>Inr None\<close> is the loop running
  out, after which Python runs the \<open>else\<close> clause of the \<open>for\<close>.
\<close>

fun current_password_loop ::
  "('m, 'f) core \<Rightarrow> nat list \<Rightarrow> 'f world \<Rightarrow> (py_exn + (string \<times> 'm) option) \<times> 'f world" where
  "current_password_loop core [] w = (Inr None, w)"
| "current_password_loop core (i # rest) w =
     (case typer_prompt (current_password_prompt i) w of
        (Inl e, w1) \<Rightarrow> (Inl e, w1)
      | (Inr curr_password, w1) \<Rightarrow>
          (case get_exisiting_cm core curr_password w1 of
             (Inl e, w2) \<Rightarrow> (Inl e, w2)
           | (Inr (Some cm), w2) \<Rightarrow> (Inr (Some (curr_password, cm)), w2)
           | (Inr None, w2) \<Rightarrow> current_password_loop core rest w2))"

text \<open>
  The loop \<open>while True\<close> that asks for the new password twice. Each round consumes at
  least two lines, so on a finite input it ends: with the password, or with the \<open>Abort\<close> of a
  prompt that finds no answer.
\<close>

function new_password_loop :: "'f world \<Rightarrow> (py_exn + string) \<times> 'f world" where
  "new_password_loop w =
     (case typer_prompt ''Enter new password'' w of
        (Inl e, w1) \<Rightarrow> (Inl e, w1)
      | (Inr new_password, w1) \<Rightarrow>
          (case typer_prompt ''Re-enter new password'' w1 of
             (Inl e, w2) \<Rightarrow> (Inl e, w2)
           | (Inr confirm, w2) \<Rightarrow>
               if new_password = confirm then (Inr new_password, w2)
               else
                 (case console_print (''Passwords do not match. Retry'' @ [CHR 0x0A]) w2 of
                    (Inl e, w3) \<Rightarrow> (Inl e, w3)
                  | (Inr u, w3) \<Rightarrow> new_password_loop w3)))"
  by pat_completeness auto
termination
proof (relation "measure (\<lambda>w. length (answers w))")
  show "wf (measure (\<lambda>w. length (answers w)))"
    by simp
next
  fix w :: "'f world" and r1 w1 new_password r2 w2 confirm r3 w3 u
  assume "(r1, w1) = typer_prompt ''Enter new password'' w" and "r1 = Inr new_password"
    and "(r2, w2) = typer_prompt ''Re-enter new password'' w1" and "r2 = Inr confirm"
    and "(r3, w3) = console_print (''Passwords do not match. Retry'' @ [CHR 0x0A]) w2"
  then have "length (answers w1) < length (answers w)"
    and "length (answers w2) < length (answers w1)"
    and "answers w3 = answers w2"
    using length_dropWhile_le [of "\<lambda>a. a = []" "answers w"]
      length_dropWhile_le [of "\<lambda>a. a = []" "answers w1"]
    by (auto simp: typer_prompt_def console_print_def emit_def Let_def
        split: list.splits if_splits)
  then show "(w3, w) \<in> measure (\<lambda>w. length (answers w))"
    by simp
qed

declare new_password_loop.simps [simp del]

text \<open>
  The part of \<open>update_password\<close> after the first \<open>if\<close>. \<open>validated\<close> is
  \<open>Some (curr_password, cm)\<close> when the loop over the attempts left through its \<open>break\<close>,
  and \<open>None\<close> when the \<open>else\<close> branch ran, where \<open>curr_password\<close> still is \<open>''\<close> and
  \<open>cm\<close> is not bound.
\<close>

definition set_new_password ::
  "('m, 'f) core \<Rightarrow> (string \<times> 'm) option \<Rightarrow> 'f world \<Rightarrow> (py_exn + unit) \<times> 'f world" where
  "set_new_password core validated w =
     (case new_password_loop w of
        (Inl e, w1) \<Rightarrow> (Inl e, w1)
      | (Inr new_password, w1) \<Rightarrow>
          (let fresh = (\<lambda>u::unit.
                 (Inr (core_new core new_password), emit (EvNew new_password) w1));
               bound = (case validated of
                   None \<Rightarrow> fresh ()
                 | Some (curr_password, cm) \<Rightarrow>
                     if curr_password \<noteq> [] then
                       (core_update_password core cm curr_password new_password,
                        emit (EvUpdatePassword curr_password new_password) w1)
                     else fresh ())
           in case bound of
                (Inl e, w2) \<Rightarrow> (Inl e, w2)
              | (Inr cm', w2) \<Rightarrow>
                  after_print ''Password updated successfully'' (cm_save core cm' w2)
                    (\<lambda>w3. (Inr (), w3))))"

definition update_password ::
  "('m, 'f) core \<Rightarrow> module_globals \<Rightarrow> 'f world \<Rightarrow> (py_exn + unit) \<times> 'f world" where
  "update_password core g w =
     (if CREDENTIALS_EXIST g then
        (case current_password_loop core [0..<3] w of
           (Inl e, w1) \<Rightarrow> (Inl e, w1)
         | (Inr None, w1) \<Rightarrow>
             after_print ''Too many incorrect attempts.'' w1 (\<lambda>w2. (Inl Abort, w2))
         | (Inr (Some v), w1) \<Rightarrow> set_new_password core (Some v) w1)
      else
        after_print ''There are no existing passwords to update'' w (\<lambda>w1.
        case typer_confirm ''Would you like to create one?'' w1 of
          (Inl e, w2) \<Rightarrow> (Inl e, w2)
        | (Inr create, w2) \<Rightarrow>
            if \<not> create then (Inr (), w2) else set_new_password core None w2))"

subsection \<open>The command \<open>delete_credentials\<close>\<close>

definition your_password_prompt :: "nat \<Rightarrow> string" where
  "your_password_prompt i =
     (if i = 0 then ''Enter your password''
      else ''Enter your password (Attempt '' @ str_nat (i + 1) @ '' / 3)'')"

text \<open>
  The loop \<open>for i in range(3)\<close> of \<open>delete_credentials\<close>: \<open>Inr True\<close> is the \<open>break\<close>
  after the file was deleted, \<open>Inr False\<close> the loop running out.
\<close>

fun delete_loop ::
  "('m, 'f) core \<Rightarrow> nat list \<Rightarrow> 'f world \<Rightarrow> (py_exn + bool) \<times> 'f world" where
  "delete_loop core [] w = (Inr False, w)"
| "delete_loop core (i # rest) w =
     (case typer_prompt (your_password_prompt i) w of
        (Inl e, w1) \<Rightarrow> (Inl e, w1)
      | (Inr pswd, w1) \<Rightarrow>
          (case get_exisiting_cm core pswd w1 of
             (Inl e, w2) \<Rightarrow> (Inl e, w2)
           | (Inr (Some cm), w2) \<Rightarrow>
               (case os_unlink w2 of
                  (Inl e, w3) \<Rightarrow> (Inl e, w3)
                | (Inr u, w3) \<Rightarrow>
                    after_print ''Credentials deleted successfully'' w3
                      (\<lambda>w4. (Inr True, w4)))
           | (Inr None, w2) \<Rightarrow> delete_loop core rest w2))"

definition delete_credentials ::
  "('m, 'f) core \<Rightarrow> module_globals \<Rightarrow> 'f world \<Rightarrow> (py_exn + unit) \<times> 'f world" where
  "delete_credentials core g w =
     (if \<not> CREDENTIALS_EXIST g then
        after_print ''There are no credentials to delete'' w (\<lambda>w1. (Inr (), w1))
      else
        (case typer_confirm ''Are you sure you want to delete your credentials?'' w of
           (Inl e, w1) \<Rightarrow> (Inl e, w1)
         | (Inr delete, w1) \<Rightarrow>
             if \<not> delete then (Inl Abort, w1)
             else
               (case delete_loop core [0..<3] w1 of
                  (Inl e, w2) \<Rightarrow> (Inl e, w2)
                | (Inr True, w2) \<Rightarrow> (Inr (), w2)
                | (Inr False, w2) \<Rightarrow>
                    after_print ''Too many incorrect attempts.'' w2
                      (\<lambda>w3. (Inl Abort, w3)))))"

subsection \<open>An example manager, to run the shell on concrete inputs\<close>

text \<open>
  A stand-in for the imported manager with the three behaviours the shell tells apart:
  a sealed file opens under its own password only, anything else at the path cannot be
  parsed, and no file at the path cannot be opened.
\<close>

datatype example_file = Sealed string "(string \<times> string) list" | Garbage string

fun example_load ::
  "example_file option \<Rightarrow> string \<Rightarrow> py_exn + string \<times> (string \<times> string) list" where
  "example_load None p = Inl (FileNotFoundError ''No such file or directory'')"
| "example_load (Some (Garbage s)) p = Inl (ValueError ''Expecting value'')"
| "example_load (Some (Sealed pw es)) p =
     (if p = pw then Inr (pw, es) else Inl (IncorrectPasswordError ''Incorrect password''))"

definition example_core :: "(string \<times> (string \<times> string) list, example_file) core" where
  "example_core =
     \<lparr>core_load = example_load,
      core_new = (\<lambda>p. (p, [])),
      core_setitem = (\<lambda>(p, es) k v. (p, (k, v) # filter (\<lambda>kv. fst kv \<noteq> k) es)),
      core_update_password = (\<lambda>(p, es) old new.
         if old = p then Inr (new, es)
         else Inl (IncorrectPasswordError ''Incorrect password'')),
      core_save = (\<lambda>(p, es). Sealed p es)\<rparr>"

text \<open>
  A stand-in for the markup parser of \<open>rich\<close> that knows the one tag \<open>b\<close>: like \<open>rich\<close>, it
  refuses a text with the closing tag \<open>[/b]\<close> and no \<open>[b]\<close> for it to close.
\<close>

definition example_renders :: "string \<Rightarrow> bool" where
  "example_renders s \<longleftrightarrow> \<not> sublist ''[/b]'' s \<or> sublist ''[b]'' s"

definition world0 ::
  "example_file option \<Rightarrow> string list \<Rightarrow> bool list \<Rightarrow> example_file world" where
  "world0 f as cs =
     \<lparr>stored = f, answers = as, confirms = cs, trace = [], renders = example_renders\<rparr>"

text \<open>A manager like the example whose messages carry markup that does not parse.\<close>

definition tagged_core :: "(string \<times> (string \<times> string) list, example_file) core" where
  "tagged_core =
     example_core\<lparr>core_load := (\<lambda>f p.
        case f of
          None \<Rightarrow> Inl (FileNotFoundError ''No such file or directory'')
        | Some (Garbage s) \<Rightarrow> Inl (ValueError ''bad tag [/b] in header'')
        | Some (Sealed pw es) \<Rightarrow>
            if p = pw then Inr (pw, es)
            else Inl (IncorrectPasswordError ''wrong [/b] password''))\<rparr>"

subsection \<open>Properties of traces\<close>

text \<open>
  Whether every \<open>os.unlink\<close> of a trace comes after some \<open>typer.confirm\<close>; \<open>asked\<close> tells
  whether a confirmation was already asked for.
\<close>

fun confirm_precedes_unlink :: "bool \<Rightarrow> 'f event list \<Rightarrow> bool" where
  "confirm_precedes_unlink asked [] = True"
| "confirm_precedes_unlink asked (EvConfirm t # es) = confirm_precedes_unlink True es"
| "confirm_precedes_unlink asked (EvUnlink # es) = (asked \<and> confirm_precedes_unlink asked es)"
| "confirm_precedes_unlink asked (e # es) = confirm_precedes_unlink asked es"

text \<open>
  The prompts for the current password: \<open>update_password\<close> asks with a text that begins
  \<open>Enter current password\<close>, \<open>delete_credentials\<close> with one that begins
  \<open>Enter your password\<close>. \<open>password_prompts\<close> counts them in a trace.
\<close>

fun is_password_prompt :: "'f event \<Rightarrow> bool" where
  "is_password_prompt (EvPrompt t) =
     (prefix ''Enter current password'' t \<or> prefix ''Enter your password'' t)"
| "is_password_prompt e = False"

definition password_prompts :: "'f event list \<Rightarrow> nat" where
  "password_prompts es = length (filter is_password_prompt es)"

text \<open>
  The answers that \<open>get_exisiting_cm\<close> rejects one after the other, starting from a path
  that holds \<open>f\<close>, on a console whose markup parser is \<open>rn\<close>: an answer is rejected when
  \<open>get_exisiting_cm\<close> returns \<open>None\<close> for it. That is when \<open>load\<close> raises
  \<open>IncorrectPasswordError\<close> with a message that prints, which leaves the file, or raises
  \<open>TypeError\<close> or \<open>ValueError\<close> with a message that prints on a file that is there, which
  deletes it. \<open>rejected core rn f as\<close> is \<open>Some\<close> of what the path holds after all of
  \<open>as\<close> were rejected, and \<open>None\<close> when one of them is not rejected.
\<close>

fun rejected ::
  "('m, 'f) core \<Rightarrow> (string \<Rightarrow> bool) \<Rightarrow> 'f option \<Rightarrow> string list \<Rightarrow> 'f option option" where
  "rejected core rn f [] = Some f"
| "rejected core rn f (a # rest) =
     (case core_load core f a of
        Inr cm \<Rightarrow> None
      | Inl e \<Rightarrow>
          if is_type_or_value_error e then
            (if CHR ''['' \<in> set (''Error: '' @ str_exn e) \<and> \<not> rn (''Error: '' @ str_exn e)
             then None
             else case f of None \<Rightarrow> None | Some c \<Rightarrow> rejected core rn None rest)
          else if is_incorrect_password e then
            (if CHR ''['' \<in> set (str_exn e) \<and> \<not> rn (str_exn e) then None
             else rejected core rn f rest)
          else None)"

text \<open>The lines the prompts will return: the answers that are not empty.\<close>

definition nonblank :: "string list \<Rightarrow> string list" where
  "nonblank as = filter (\<lambda>a. a \<noteq> []) as"

section \<open>The credential store behind the shell, from the specification\<close>

text \<open>
  \<open>lazycodr/utils/credentials.py\<close> is not among the sources; what follows is the store
  as the specification describes it. The specification fixes the flow of \<open>create\<close>,
  \<open>load\<close>, \<open>save\<close> and \<open>update_password\<close> and leaves the key derivation, the cipher,
  the codec and the file layout to be chosen, so these are parameters. Random values
  (salts, nonces) are arguments of the operation that draws them.
\<close>

text \<open>Modelled from the spec: salts and nonces are random bytes.\<close>

type_synonym bytes = "nat list"

text \<open>
  Modelled from the spec: KdfParameters, the algorithm identifier, the cost parameters
  and the salt that are stored with the file.
\<close>

record kdf_parameters =
  algorithm :: nat
  cost :: "nat list"
  salt :: bytes

text \<open>
  Modelled from the spec: EncryptedEnvelope, the version tag, the KdfParameters, the
  nonce and the ciphertext with its authentication tag.
\<close>

record 'c envelope =
  version :: nat
  env_kdf :: kdf_parameters
  nonce :: bytes
  ciphertext :: 'c

text \<open>
  Modelled from the spec: the unlocked CredentialsManager, which holds the decrypted
  mapping and the KdfParameters and key it was unlocked with.
\<close>

record 'k manager =
  mapping :: "string \<rightharpoonup> string"
  kdf :: kdf_parameters
  key :: 'k

text \<open>
  Modelled from the spec: the four leaf components by their contracts of section 4,
  \<open>derive(password, salt, params)\<close>, \<open>seal\<close> and \<open>open\<close> (\<open>None\<close> is
  AuthenticationFailure), \<open>encode\<close> and \<open>decode\<close> (\<open>None\<close> is MalformedPayload),
  \<open>write\<close> and \<open>read\<close> (\<open>None\<close> is MalformedFile). \<open>'k\<close> is the type of keys, \<open>'c\<close> of
  ciphertexts, \<open>'p\<close> of encoded payloads and \<open>'f\<close> of file contents.
\<close>

record ('k, 'c, 'p, 'f) primitives =
  kdf_derive :: "string \<Rightarrow> kdf_parameters \<Rightarrow> 'k"
  cipher_seal :: "'k \<Rightarrow> bytes \<Rightarrow> 'p \<Rightarrow> 'c"
  cipher_open :: "'k \<Rightarrow> bytes \<Rightarrow> 'c \<Rightarrow> 'p option"
  codec_encode :: "(string \<rightharpoonup> string) \<Rightarrow> 'p"
  codec_decode :: "'p \<Rightarrow> (string \<rightharpoonup> string) option"
  format_write :: "'c envelope \<Rightarrow> 'f"
  format_read :: "'f \<Rightarrow> 'c envelope option"


text \<open>Modelled from the spec: the version marker that \<open>save\<close> writes.\<close>

definition format_version :: nat where
  "format_version = 1"

text \<open>
  Modelled from the spec: \<open>create(password)\<close> takes a fresh salt and KdfParameters,
  derives a key and starts with an empty mapping.
\<close>

definition manager_create ::
  "('k, 'c, 'p, 'f) primitives \<Rightarrow> string \<Rightarrow> kdf_parameters \<Rightarrow> 'k manager" where
  "manager_create P password fresh =
     \<lparr>mapping = Map.empty, kdf = fresh, key = kdf_derive P password fresh\<rparr>"


text \<open>
  Modelled from the spec: \<open>save(path)\<close> takes a fresh nonce, keeps the salt and
  parameters of the manager, seals the encoded mapping and writes the envelope. This is
  the content of the file; the discipline of writing it follows below.
\<close>

definition manager_save ::
  "('k, 'c, 'p, 'f) primitives \<Rightarrow> 'k manager \<Rightarrow> bytes \<Rightarrow> 'f" where
  "manager_save P m fresh_nonce =
     format_write P
       \<lparr>version = format_version, env_kdf = kdf m, nonce = fresh_nonce,
        ciphertext = cipher_seal P (key m) fresh_nonce (codec_encode P (mapping m))\<rparr>"


subsection \<open>The contracts of the leaf components\<close>




subsection \<open>Symbolic components, to run the store on concrete inputs\<close>



text \<open>Modelled from the spec: two sets of KdfParameters that differ in their salt.\<close>

definition params0 :: kdf_parameters where
  "params0 = \<lparr>algorithm = 1, cost = [3, 65536, 4], salt = [1, 2, 3, 4]\<rparr>"


subsection \<open>Writing the file: temporary file, then rename\<close>

text \<open>
  Modelled from the spec: section 5 prescribes \<open>save\<close> as acquiring a temporary file,
  writing it in full, flushing, and renaming it over the target path. A disk holds what
  is at the target path and what is in the temporary file; the file is written piece by
  piece, and only the rename touches the target path, in one step.
\<close>

datatype 'b io_step = CreateTemp | WriteChunk 'b | Flush | Rename

text \<open>
  Modelled from the spec: what an observer finds at the target path and in the
  temporary file; \<open>None\<close> where there is no file.
\<close>

record 'b disk =
  at_path :: "'b list option"
  at_temp :: "'b list option"

text \<open>
  Modelled from the spec: one step of the write discipline. Creating the temporary file
  empties it, a write appends one piece to it, the flush changes nothing an observer
  of the two files sees, and the rename puts the temporary file at the target path.
\<close>

fun do_step :: "'b io_step \<Rightarrow> 'b disk \<Rightarrow> 'b disk" where
  "do_step CreateTemp d = d\<lparr>at_temp := Some []\<rparr>"
| "do_step (WriteChunk b) d = d\<lparr>at_temp := map_option (\<lambda>bs. bs @ [b]) (at_temp d)\<rparr>"
| "do_step Flush d = d"
| "do_step Rename d =
     (case at_temp d of
        None \<Rightarrow> d
      | Some bs \<Rightarrow> d\<lparr>at_path := Some bs, at_temp := None\<rparr>)"

text \<open>Modelled from the spec: the steps run in order.\<close>

definition run_steps :: "'b io_step list \<Rightarrow> 'b disk \<Rightarrow> 'b disk" where
  "run_steps steps d = fold do_step steps d"

text \<open>
  Modelled from the spec: acquire the temporary file, write the whole content, flush,
  rename over the target path.
\<close>

definition save_steps :: "'b list \<Rightarrow> 'b io_step list" where
  "save_steps content = CreateTemp # map WriteChunk content @ [Flush, Rename]"

text \<open>
  Modelled from the spec: \<open>save(path)\<close> interrupted after its first \<open>n\<close> steps (all of
  them when \<open>n\<close> is at least their number), for a file format whose files are lists of
  pieces.
\<close>

definition save_interrupted ::
  "('k, 'c, 'p, 'b list) primitives \<Rightarrow> 'k manager \<Rightarrow> bytes \<Rightarrow> nat \<Rightarrow> 'b disk \<Rightarrow> 'b disk" where
  "save_interrupted P m fresh_nonce n d =
     run_steps (take n (save_steps (manager_save P m fresh_nonce))) d"

text \<open>
  Modelled from the spec: components whose files are lists of numbers, to run the
  writing of a file step by step: the file is the version, the salt and the nonce.
\<close>

definition chunked ::
  "(string \<times> kdf_parameters,
    (string \<times> kdf_parameters) \<times> bytes \<times> (string \<rightharpoonup> string),
    string \<rightharpoonup> string,
    nat list) primitives" where
  "chunked =
     \<lparr>kdf_derive = (\<lambda>password params. (password, params)),
      cipher_seal = (\<lambda>k n p. (k, n, p)),
      cipher_open = (\<lambda>k n c. case c of (k', n', p) \<Rightarrow> if k' = k \<and> n' = n then Some p else None),
      codec_encode = (\<lambda>m. m),
      codec_decode = (\<lambda>p. Some p),
      format_write = (\<lambda>e. version e # salt (env_kdf e) @ nonce e),
      format_read = (\<lambda>f. None)\<rparr>"

section \<open>Printing\<close>

lemma markup_fails_emit [simp]: "markup_fails (emit e w) s = markup_fails w s"
  by (simp add: markup_fails_def emit_def)

lemma markup_fails_update [simp]:
  "markup_fails (w\<lparr>trace := t\<rparr>) s = markup_fails w s"
  "markup_fails (w\<lparr>stored := f\<rparr>) s = markup_fails w s"
  "markup_fails (w\<lparr>answers := as\<rparr>) s = markup_fails w s"
  "markup_fails (w\<lparr>confirms := cs\<rparr>) s = markup_fails w s"
  by (simp_all add: markup_fails_def)

lemma markup_fails_plain [simp]: "CHR ''['' \<notin> set s \<Longrightarrow> \<not> markup_fails w s"
  by (simp add: markup_fails_def)

lemma after_print_cases:
  "after_print s w k =
     (if markup_fails w s then (Inl (MarkupError s), w) else k (emit (EvPrint s) w))"
  by (simp add: after_print_def console_print_def)

lemma after_print_plain [simp]:
  "CHR ''['' \<notin> set s \<Longrightarrow> after_print s w k = k (emit (EvPrint s) w)"
  by (simp add: after_print_cases)

section \<open>What \<open>get_exisiting_cm\<close> does, case by case\<close>

lemma get_exisiting_cm_loaded:
  "core_load core (stored w) p = Inr cm \<Longrightarrow>
   get_exisiting_cm core p w = (Inr (Some cm), emit (EvLoad (stored w) p) w)"
  by (simp add: get_exisiting_cm_def)

lemma get_exisiting_cm_incorrect:
  "core_load core (stored w) p = Inl (IncorrectPasswordError m) \<Longrightarrow>
   get_exisiting_cm core p w =
     (if markup_fails w m
      then (Inl (MarkupError m), w\<lparr>trace := trace w @ [EvLoad (stored w) p]\<rparr>)
      else (Inr None, w\<lparr>trace := trace w @ [EvLoad (stored w) p, EvPrint m]\<rparr>))"
  by (simp add: get_exisiting_cm_def after_print_cases emit_def Let_def)

lemma get_exisiting_cm_corrupted:
  "core_load core (stored w) p = Inl e \<Longrightarrow> is_type_or_value_error e \<Longrightarrow>
   get_exisiting_cm core p w =
     (if markup_fails w (''Error: '' @ str_exn e) then
        (Inl (MarkupError (''Error: '' @ str_exn e)),
         w\<lparr>trace := trace w @
            [EvLoad (stored w) p,
             EvPrint ''Oh no! The credentials file is corrupted.'']\<rparr>)
      else
        (case stored w of
           None \<Rightarrow>
             (Inl (FileNotFoundError ''No such file or directory''),
              w\<lparr>trace := trace w @
                 [EvLoad None p,
                  EvPrint ''Oh no! The credentials file is corrupted.'',
                  EvPrint (''Error: '' @ str_exn e)]\<rparr>)
         | Some c \<Rightarrow>
             (Inr None,
              w\<lparr>stored := None,
                trace := trace w @
                  [EvLoad (Some c) p,
                   EvPrint ''Oh no! The credentials file is corrupted.'',
                   EvPrint (''Error: '' @ str_exn e),
                   EvUnlink,
                   EvPrint ''For the security of your credentials, it has now been deleted'',
                   EvPrint ''Please recreate your credentials with the following command'',
                   EvPrint ''  lazycodr config credentials'']\<rparr>)))"
  by (simp add: get_exisiting_cm_def after_print_cases emit_def os_unlink_def Let_def
      split: option.splits)

lemma get_exisiting_cm_other:
  "core_load core (stored w) p = Inl e \<Longrightarrow> \<not> is_type_or_value_error e \<Longrightarrow>
   \<not> is_incorrect_password e \<Longrightarrow>
   get_exisiting_cm core p w = (Inl e, emit (EvLoad (stored w) p) w)"
  by (simp add: get_exisiting_cm_def)

lemma example_renders_bad_tag: "\<not> example_renders ''Error: bad tag [/b] in header''"
  by (simp add: example_renders_def sublist_Cons_right)

lemma example_renders_wrong: "\<not> example_renders ''wrong [/b] password''"
  by (simp add: example_renders_def sublist_Cons_right)

section \<open>Corruption: the file is deleted without a question\<close>

text \<open>
  Claim C1, as the code has it. When \<open>CredentialsManager.load\<close> raises \<open>TypeError\<close> or
  \<open>ValueError\<close>, \<open>get_exisiting_cm\<close> prints the corruption line and then the error. If
  the console cannot render the error line, \<open>MarkupError\<close> leaves the function there,
  before \<open>os.unlink\<close>, and the file stays. Otherwise the file is deleted with
  \<open>os.unlink\<close> at once (which raises \<open>FileNotFoundError\<close> if there is no file), the three
  lines of guidance are printed and the result is \<open>None\<close>. In no case is the user asked:
  no \<open>typer.confirm\<close> is in the trace, and the answers the user would give are all
  still there.
\<close>

theorem corruption_deletes_unasked:
  assumes "core_load core (stored w) p = Inl e" and "is_type_or_value_error e"
  shows "get_exisiting_cm core p w =
     (if markup_fails w (''Error: '' @ str_exn e) then
        (Inl (MarkupError (''Error: '' @ str_exn e)),
         w\<lparr>trace := trace w @
            [EvLoad (stored w) p,
             EvPrint ''Oh no! The credentials file is corrupted.'']\<rparr>)
      else
        (case stored w of
           None \<Rightarrow>
             (Inl (FileNotFoundError ''No such file or directory''),
              w\<lparr>trace := trace w @
                 [EvLoad None p,
                  EvPrint ''Oh no! The credentials file is corrupted.'',
                  EvPrint (''Error: '' @ str_exn e)]\<rparr>)
         | Some c \<Rightarrow>
             (Inr None,
              w\<lparr>stored := None,
                trace := trace w @
                  [EvLoad (Some c) p,
                   EvPrint ''Oh no! The credentials file is corrupted.'',
                   EvPrint (''Error: '' @ str_exn e),
                   EvUnlink,
                   EvPrint ''For the security of your credentials, it has now been deleted'',
                   EvPrint ''Please recreate your credentials with the following command'',
                   EvPrint ''  lazycodr config credentials'']\<rparr>)))"
  using assms by (rule get_exisiting_cm_corrupted)

theorem corruption_deletes_unasked_witness:
  "get_exisiting_cm example_core ''pw'' (world0 (Some (Garbage ''{'')) [] [True]) =
     (Inr None,
      \<lparr>stored = None, answers = [], confirms = [True],
       trace =
          [EvLoad (Some (Garbage ''{'')) ''pw'',
           EvPrint ''Oh no! The credentials file is corrupted.'',
           EvPrint ''Error: Expecting value'',
           EvUnlink,
           EvPrint ''For the security of your credentials, it has now been deleted'',
           EvPrint ''Please recreate your credentials with the following command'',
           EvPrint ''  lazycodr config credentials''],
       renders = example_renders\<rparr>)
   \<and> get_exisiting_cm tagged_core ''pw'' (world0 (Some (Garbage ''{'')) [] [True]) =
     (Inl (MarkupError ''Error: bad tag [/b] in header''),
      \<lparr>stored = Some (Garbage ''{''), answers = [], confirms = [True],
       trace =
          [EvLoad (Some (Garbage ''{'')) ''pw'',
           EvPrint ''Oh no! The credentials file is corrupted.''],
       renders = example_renders\<rparr>)"
  using corruption_deletes_unasked
    [of example_core "world0 (Some (Garbage ''{'')) [] [True]" "''pw''"
        "ValueError ''Expecting value''"]
    corruption_deletes_unasked
    [of tagged_core "world0 (Some (Garbage ''{'')) [] [True]" "''pw''"
        "ValueError ''bad tag [/b] in header''"]
    example_renders_bad_tag
  by (simp add: example_core_def tagged_core_def world0_def markup_fails_def)

text \<open>
  The claim as the specification words it fails: on a file that cannot be parsed the
  manager raises \<open>ValueError\<close>, the file is gone afterwards, and the \<open>os.unlink\<close> of the
  trace has no confirmation before it.
\<close>

theorem corruption_unlink_unconfirmed:
  "core_load example_core (stored (world0 (Some (Garbage ''{'')) [] [True])) ''pw''
     = Inl (ValueError ''Expecting value'')
   \<and> stored (snd (get_exisiting_cm example_core ''pw''
                     (world0 (Some (Garbage ''{'')) [] [True]))) = None
   \<and> \<not> confirm_precedes_unlink False
        (trace (snd (get_exisiting_cm example_core ''pw''
                       (world0 (Some (Garbage ''{'')) [] [True]))))"
  by (simp add: get_exisiting_cm_def example_core_def world0_def emit_def os_unlink_def)

section \<open>Incorrect password: the file stays as it is\<close>

text \<open>
  Claim C3, as the code has it. When \<open>CredentialsManager.load\<close> raises
  \<open>IncorrectPasswordError\<close>, the world after \<open>get_exisiting_cm\<close> differs from the one
  before in its trace only, which gained the call of \<open>load\<close> and, if it was printed, the
  message: the file is neither deleted nor rewritten. If the console renders the
  message, \<open>get_exisiting_cm\<close> returns \<open>None\<close>, and \<open>credentials\<close>, which calls it when
  \<open>CREDENTIALS_EXIST\<close> holds, returns in that same world: nothing was set and \<open>save\<close> was
  not called. If the console cannot render the message, \<open>MarkupError\<close> leaves both
  functions instead, the file still as it was.
\<close>

theorem incorrect_password_file_untouched:
  assumes "core_load core (stored w) p = Inl (IncorrectPasswordError m)"
  shows "get_exisiting_cm core p w =
           (if markup_fails w m
            then (Inl (MarkupError m), w\<lparr>trace := trace w @ [EvLoad (stored w) p]\<rparr>)
            else (Inr None, w\<lparr>trace := trace w @ [EvLoad (stored w) p, EvPrint m]\<rparr>))
       \<and> (CREDENTIALS_EXIST g \<longrightarrow>
            credentials core g openai_api_key github_token p w =
              (if markup_fails w m
               then (Inl (MarkupError m), w\<lparr>trace := trace w @ [EvLoad (stored w) p]\<rparr>)
               else (Inr (), w\<lparr>trace := trace w @ [EvLoad (stored w) p, EvPrint m]\<rparr>)))"
  using get_exisiting_cm_incorrect [OF assms]
  by (simp add: credentials_def)

theorem incorrect_password_file_untouched_witness:
  "get_exisiting_cm example_core ''guess'' (world0 (Some (Sealed ''pw'' [(''k'', ''v'')])) [] []) =
     (Inr None,
      \<lparr>stored = Some (Sealed ''pw'' [(''k'', ''v'')]), answers = [], confirms = [],
       trace = [EvLoad (Some (Sealed ''pw'' [(''k'', ''v'')])) ''guess'',
                EvPrint ''Incorrect password''],
       renders = example_renders\<rparr>)
   \<and> credentials example_core
        (import_module (world0 (Some (Sealed ''pw'' [(''k'', ''v'')])) [] []))
        ''sk-1'' ''ghp-2'' ''guess''
        (world0 (Some (Sealed ''pw'' [(''k'', ''v'')])) [] []) =
     (Inr (),
      \<lparr>stored = Some (Sealed ''pw'' [(''k'', ''v'')]), answers = [], confirms = [],
       trace = [EvLoad (Some (Sealed ''pw'' [(''k'', ''v'')])) ''guess'',
                EvPrint ''Incorrect password''],
       renders = example_renders\<rparr>)"
  using incorrect_password_file_untouched
    [of example_core "world0 (Some (Sealed ''pw'' [(''k'', ''v'')])) [] []" "''guess''"
        "''Incorrect password''"
        "import_module (world0 (Some (Sealed ''pw'' [(''k'', ''v'')])) [] [])"
        "''sk-1''" "''ghp-2''"]
  by (simp add: example_core_def world0_def import_module_def markup_fails_def)

text \<open>
  The claim as stated fails where the message of the exception carries a closing tag
  that matches no open tag: \<open>console.print(e.message)\<close> raises, so \<open>get_exisiting_cm\<close> does
  not return \<open>None\<close> and \<open>credentials\<close> does not return.
\<close>

theorem incorrect_password_message_unrendered:
  "core_load tagged_core (stored (world0 (Some (Sealed ''pw'' [])) [] [])) ''guess''
     = Inl (IncorrectPasswordError ''wrong [/b] password'')
   \<and> fst (get_exisiting_cm tagged_core ''guess'' (world0 (Some (Sealed ''pw'' [])) [] []))
       = Inl (MarkupError ''wrong [/b] password'')
   \<and> fst (credentials tagged_core (import_module (world0 (Some (Sealed ''pw'' [])) [] []))
             ''sk-1'' ''ghp-2'' ''guess'' (world0 (Some (Sealed ''pw'' [])) [] []))
       = Inl (MarkupError ''wrong [/b] password'')"
  using example_renders_wrong
  by (simp add: get_exisiting_cm_def credentials_def tagged_core_def example_core_def
      world0_def import_module_def after_print_cases markup_fails_def emit_def)

section \<open>The three exception classes \<open>get_exisiting_cm\<close> handles\<close>

text \<open>
  Claim C10, as the code has it. A manager that loads is returned. \<open>TypeError\<close> and
  \<open>ValueError\<close> enter the first handler and \<open>IncorrectPasswordError\<close> the second; an
  exception of any other class leaves \<open>get_exisiting_cm\<close> as it came out of \<open>load\<close>, with
  nothing printed and the file as it was. A handler that runs to its end falls through
  to \<open>return None\<close>: the first after deleting the file, the second with the file as it
  was. A handler does not run to its end when a statement in it raises: \<open>console.print\<close>
  on a message it cannot render (\<open>MarkupError\<close>, the file as it was), or \<open>os.unlink\<close> on a
  path with no file (\<open>FileNotFoundError\<close>).
\<close>

theorem get_exisiting_cm_handles_three:
  "(core_load core (stored w) p = Inr cm \<longrightarrow>
      get_exisiting_cm core p w = (Inr (Some cm), emit (EvLoad (stored w) p) w))
   \<and> (core_load core (stored w) p = Inl (TypeError m)
        \<or> core_load core (stored w) p = Inl (ValueError m) \<longrightarrow>
        (if markup_fails w (''Error: '' @ m) then
           fst (get_exisiting_cm core p w) = Inl (MarkupError (''Error: '' @ m))
           \<and> stored (snd (get_exisiting_cm core p w)) = stored w
         else if stored w = None then
           fst (get_exisiting_cm core p w) = Inl (FileNotFoundError ''No such file or directory'')
           \<and> stored (snd (get_exisiting_cm core p w)) = None
         else
           fst (get_exisiting_cm core p w) = Inr None
           \<and> stored (snd (get_exisiting_cm core p w)) = None))
   \<and> (core_load core (stored w) p = Inl (IncorrectPasswordError m) \<longrightarrow>
        fst (get_exisiting_cm core p w)
          = (if markup_fails w m then Inl (MarkupError m) else Inr None)
        \<and> stored (snd (get_exisiting_cm core p w)) = stored w)
   \<and> (core_load core (stored w) p = Inl e \<longrightarrow>
        (\<forall>m'. e \<noteq> TypeError m' \<and> e \<noteq> ValueError m' \<and> e \<noteq> IncorrectPasswordError m') \<longrightarrow>
        get_exisiting_cm core p w = (Inl e, emit (EvLoad (stored w) p) w))"
proof -
  have loaded: "core_load core (stored w) p = Inr cm \<longrightarrow>
      get_exisiting_cm core p w = (Inr (Some cm), emit (EvLoad (stored w) p) w)"
    by (simp add: get_exisiting_cm_loaded)
  have corrupted: "core_load core (stored w) p = Inl (TypeError m)
        \<or> core_load core (stored w) p = Inl (ValueError m) \<longrightarrow>
        (if markup_fails w (''Error: '' @ m) then
           fst (get_exisiting_cm core p w) = Inl (MarkupError (''Error: '' @ m))
           \<and> stored (snd (get_exisiting_cm core p w)) = stored w
         else if stored w = None then
           fst (get_exisiting_cm core p w) = Inl (FileNotFoundError ''No such file or directory'')
           \<and> stored (snd (get_exisiting_cm core p w)) = None
         else
           fst (get_exisiting_cm core p w) = Inr None
           \<and> stored (snd (get_exisiting_cm core p w)) = None)"
  proof (intro impI)
    assume "core_load core (stored w) p = Inl (TypeError m)
        \<or> core_load core (stored w) p = Inl (ValueError m)"
    then obtain e where e: "core_load core (stored w) p = Inl e" "is_type_or_value_error e"
      and s: "str_exn e = m"
      by auto
    show "if markup_fails w (''Error: '' @ m) then
           fst (get_exisiting_cm core p w) = Inl (MarkupError (''Error: '' @ m))
           \<and> stored (snd (get_exisiting_cm core p w)) = stored w
         else if stored w = None then
           fst (get_exisiting_cm core p w) = Inl (FileNotFoundError ''No such file or directory'')
           \<and> stored (snd (get_exisiting_cm core p w)) = None
         else
           fst (get_exisiting_cm core p w) = Inr None
           \<and> stored (snd (get_exisiting_cm core p w)) = None"
      using s by (auto simp: get_exisiting_cm_corrupted [OF e] split: option.splits)
  qed
  have incorrect: "core_load core (stored w) p = Inl (IncorrectPasswordError m) \<longrightarrow>
        fst (get_exisiting_cm core p w)
          = (if markup_fails w m then Inl (MarkupError m) else Inr None)
        \<and> stored (snd (get_exisiting_cm core p w)) = stored w"
    by (simp add: get_exisiting_cm_incorrect)
  have other: "core_load core (stored w) p = Inl e \<longrightarrow>
        (\<forall>m'. e \<noteq> TypeError m' \<and> e \<noteq> ValueError m' \<and> e \<noteq> IncorrectPasswordError m') \<longrightarrow>
        get_exisiting_cm core p w = (Inl e, emit (EvLoad (stored w) p) w)"
  proof (intro impI)
    assume l: "core_load core (stored w) p = Inl e"
      and n: "\<forall>m'. e \<noteq> TypeError m' \<and> e \<noteq> ValueError m' \<and> e \<noteq> IncorrectPasswordError m'"
    from n have "\<not> is_type_or_value_error e" and "\<not> is_incorrect_password e"
      by (cases e; simp)+
    with l show "get_exisiting_cm core p w = (Inl e, emit (EvLoad (stored w) p) w)"
      by (rule get_exisiting_cm_other)
  qed
  from loaded corrupted incorrect other show ?thesis by blast
qed

theorem get_exisiting_cm_handles_three_witness:
  "get_exisiting_cm example_core ''pw'' (world0 (Some (Sealed ''pw'' [])) [] []) =
     (Inr (Some (''pw'', [])),
      \<lparr>stored = Some (Sealed ''pw'' []), answers = [], confirms = [],
       trace = [EvLoad (Some (Sealed ''pw'' [])) ''pw''], renders = example_renders\<rparr>)
   \<and> fst (get_exisiting_cm example_core ''pw'' (world0 (Some (Garbage ''{'')) [] [])) = Inr None
   \<and> stored (snd (get_exisiting_cm example_core ''pw'' (world0 (Some (Garbage ''{'')) [] [])))
       = None
   \<and> fst (get_exisiting_cm example_core ''guess'' (world0 (Some (Sealed ''pw'' [])) [] []))
       = Inr None
   \<and> stored (snd (get_exisiting_cm example_core ''guess'' (world0 (Some (Sealed ''pw'' [])) [] [])))
       = Some (Sealed ''pw'' [])
   \<and> get_exisiting_cm example_core ''pw'' (world0 None [] []) =
     (Inl (FileNotFoundError ''No such file or directory''),
      \<lparr>stored = None, answers = [], confirms = [], trace = [EvLoad None ''pw''],
       renders = example_renders\<rparr>)"
proof -
  note a = get_exisiting_cm_handles_three
    [of example_core "world0 (Some (Sealed ''pw'' [])) [] []" "''pw''" "(''pw'', [])"
        "[]" Abort]
  note b = get_exisiting_cm_handles_three
    [of example_core "world0 (Some (Garbage ''{'')) [] []" "''pw''" "(''pw'', [])"
        "''Expecting value''" Abort]
  note c = get_exisiting_cm_handles_three
    [of example_core "world0 (Some (Sealed ''pw'' [])) [] []" "''guess''" "(''pw'', [])"
        "''Incorrect password''" Abort]
  note d = get_exisiting_cm_handles_three
    [of example_core "world0 None [] []" "''pw''" "(''pw'', [])"
        "[]" "FileNotFoundError ''No such file or directory''"]
  from a b c d show ?thesis
    by (simp add: example_core_def world0_def emit_def markup_fails_def)
qed

text \<open>
  The claim as stated fails where a handler does not run to its end: the manager raises
  \<open>ValueError\<close>, a class that is handled, with a message the console cannot render, and
  \<open>get_exisiting_cm\<close> raises \<open>MarkupError\<close> instead of returning \<open>None\<close>, the file not
  deleted.
\<close>

theorem handled_exception_not_none:
  "core_load tagged_core (stored (world0 (Some (Garbage ''{'')) [] [])) ''pw''
     = Inl (ValueError ''bad tag [/b] in header'')
   \<and> fst (get_exisiting_cm tagged_core ''pw'' (world0 (Some (Garbage ''{'')) [] []))
       = Inl (MarkupError ''Error: bad tag [/b] in header'')
   \<and> stored (snd (get_exisiting_cm tagged_core ''pw'' (world0 (Some (Garbage ''{'')) [] [])))
       = Some (Garbage ''{'')"
  using example_renders_bad_tag
  by (simp add: get_exisiting_cm_def tagged_core_def example_core_def world0_def
      after_print_cases markup_fails_def emit_def)

section \<open>How the trace grows\<close>

text \<open>
  No function of the module removes an event: the trace before a call is a prefix of
  the trace after it.
\<close>

lemma prefix_typer_prompt: "prefix (trace w) (trace (snd (typer_prompt t w)))"
  by (simp add: typer_prompt_def emit_def Let_def split: list.splits)

lemma prefix_os_unlink: "prefix (trace w) (trace (snd (os_unlink w)))"
  by (simp add: os_unlink_def emit_def split: option.splits)

lemma get_exisiting_cm_starts:
  "prefix (trace w @ [EvLoad (stored w) p]) (trace (snd (get_exisiting_cm core p w)))"
  by (simp add: get_exisiting_cm_def after_print_cases emit_def os_unlink_def Let_def
      split: sum.splits option.splits)

lemma prefix_get_exisiting_cm: "prefix (trace w) (trace (snd (get_exisiting_cm core p w)))"
  using get_exisiting_cm_starts [of w p core] by (rule append_prefixD)

lemma prefix_current_password_loop:
  "prefix (trace w) (trace (snd (current_password_loop core is w)))"
proof (induction "is" arbitrary: w)
  case Nil
  show ?case by simp
next
  case (Cons i rest)
  obtain r1 w1 where p: "typer_prompt (current_password_prompt i) w = (r1, w1)"
    by (cases "typer_prompt (current_password_prompt i) w")
  have w1: "prefix (trace w) (trace w1)"
    using prefix_typer_prompt [of w "current_password_prompt i"] p by simp
  show ?case
  proof (cases r1)
    case (Inl e)
    with p w1 show ?thesis by simp
  next
    case (Inr a)
    obtain r2 w2 where g: "get_exisiting_cm core a w1 = (r2, w2)"
      by (cases "get_exisiting_cm core a w1")
    have w2: "prefix (trace w1) (trace w2)"
      using prefix_get_exisiting_cm [of w1 core a] g by simp
    have "prefix (trace w2) (trace (snd (current_password_loop core rest w2)))"
      by (rule Cons.IH)
    with w1 w2 p Inr g show ?thesis
      by (auto split: sum.splits option.splits intro: prefix_order.trans)
  qed
qed

lemma prefix_delete_loop:
  "prefix (trace w) (trace (snd (delete_loop core is w)))"
proof (induction "is" arbitrary: w)
  case Nil
  show ?case by simp
next
  case (Cons i rest)
  obtain r1 w1 where p: "typer_prompt (your_password_prompt i) w = (r1, w1)"
    by (cases "typer_prompt (your_password_prompt i) w")
  have w1: "prefix (trace w) (trace w1)"
    using prefix_typer_prompt [of w "your_password_prompt i"] p by simp
  show ?case
  proof (cases r1)
    case (Inl e)
    with p w1 show ?thesis by simp
  next
    case (Inr a)
    obtain r2 w2 where g: "get_exisiting_cm core a w1 = (r2, w2)"
      by (cases "get_exisiting_cm core a w1")
    have w2: "prefix (trace w1) (trace w2)"
      using prefix_get_exisiting_cm [of w1 core a] g by simp
    have w12: "prefix (trace w) (trace w2)"
      using w1 w2 by (rule prefix_order.trans)
    have ih: "prefix (trace w2) (trace (snd (delete_loop core rest w2)))"
      by (rule Cons.IH)
    have u: "prefix (trace w2) (trace (snd (os_unlink w2)))"
      by (rule prefix_os_unlink)
    show ?thesis
    proof (cases r2)
      case (Inl e)
      with p Inr g w12 show ?thesis by simp
    next
      case r2: (Inr v)
      show ?thesis
      proof (cases v)
        case None
        with p Inr g r2 w12 ih show ?thesis
          by (auto intro: prefix_order.trans)
      next
        case (Some cm)
        with p Inr g r2 w12 u show ?thesis
          by (auto simp: emit_def split: prod.splits sum.splits
              intro: prefix_order.trans)
      qed
    qed
  qed
qed

lemma console_print_mismatch:
  "console_print (''Passwords do not match. Retry'' @ [CHR 0x0A]) w =
     (Inr (), emit (EvPrint (''Passwords do not match. Retry'' @ [CHR 0x0A])) w)"
  by (simp add: console_print_def)

lemma prefix_new_password_loop:
  "prefix (trace w) (trace (snd (new_password_loop w)))"
proof (induction w rule: new_password_loop.induct)
  case (1 w)
  obtain r1 w1 where p1: "typer_prompt ''Enter new password'' w = (r1, w1)"
    by (cases "typer_prompt ''Enter new password'' w")
  have w1: "prefix (trace w) (trace w1)"
    using prefix_typer_prompt [of w "''Enter new password''"] p1 by simp
  show ?case
  proof (cases r1)
    case (Inl e)
    with p1 w1 show ?thesis by (subst new_password_loop.simps) simp
  next
    case r1: (Inr n)
    obtain r2 w2 where p2: "typer_prompt ''Re-enter new password'' w1 = (r2, w2)"
      by (cases "typer_prompt ''Re-enter new password'' w1")
    have w2: "prefix (trace w1) (trace w2)"
      using prefix_typer_prompt [of w1 "''Re-enter new password''"] p2 by simp
    have w12: "prefix (trace w) (trace w2)"
      using w1 w2 by (rule prefix_order.trans)
    show ?thesis
    proof (cases r2)
      case (Inl e)
      with p1 r1 p2 w12 show ?thesis by (subst new_password_loop.simps) simp
    next
      case r2: (Inr c)
      show ?thesis
      proof (cases "n = c")
        case True
        with p1 r1 p2 r2 w12 show ?thesis by (subst new_password_loop.simps) simp
      next
        case False
        let ?w3 = "emit (EvPrint (''Passwords do not match. Retry'' @ [CHR 0x0A])) w2"
        note cp = console_print_mismatch [of w2]
        have "prefix (trace ?w3) (trace (snd (new_password_loop ?w3)))"
          using "1.IH" [OF p1 [symmetric] r1 p2 [symmetric] r2 False cp [symmetric] refl]
          by simp
        moreover have "prefix (trace w2) (trace ?w3)"
          by (simp add: emit_def)
        ultimately have "prefix (trace w) (trace (snd (new_password_loop ?w3)))"
          using w12 by (blast intro: prefix_order.trans)
        with p1 r1 p2 r2 False cp show ?thesis
          by (subst new_password_loop.simps) simp
      qed
    qed
  qed
qed

lemma prefix_saved:
  "prefix (trace w) (trace w1) \<Longrightarrow>
   prefix (trace w) (trace (emit (EvPrint s) (cm_save core cm (emit ev w1))))"
  by (auto simp: cm_save_def emit_def prefix_def)

lemma prefix_set_new_password:
  "prefix (trace w) (trace (snd (set_new_password core v w)))"
proof -
  obtain r1 w1 where n: "new_password_loop w = (r1, w1)"
    by (cases "new_password_loop w")
  have w1: "prefix (trace w) (trace w1)"
    using prefix_new_password_loop [of w] n by simp
  have e: "prefix (trace w) (trace (emit ev w1))" for ev
    using w1 by (auto simp: emit_def prefix_def)
  show ?thesis
  proof (cases r1)
    case (Inl e)
    with n w1 show ?thesis by (simp add: set_new_password_def)
  next
    case (Inr new_password)
    show ?thesis
    proof (cases "\<exists>curr cm. v = Some (curr, cm) \<and> curr \<noteq> []")
      case True
      then obtain curr cm where v: "v = Some (curr, cm)" "curr \<noteq> []" by blast
      show ?thesis
      proof (cases "core_update_password core cm curr new_password")
        case (Inl ex)
        with n Inr v e show ?thesis by (simp add: set_new_password_def)
      next
        case u: (Inr cm')
        with n Inr v prefix_saved [OF w1] show ?thesis by (simp add: set_new_password_def)
      qed
    next
      case False
      then have "v = None \<or> (\<exists>cm. v = Some ([], cm))" by (cases v) auto
      with n Inr prefix_saved [OF w1] show ?thesis
        by (auto simp: set_new_password_def)
    qed
  qed
qed

section \<open>The first steps of each command\<close>

lemma upt_0_3: "[0..<3] = [0, 1, 2]"
  by (simp add: upt_rec)

lemma current_password_prompt_0: "current_password_prompt 0 = ''Enter current password''"
  by (simp add: current_password_prompt_def)

lemma current_password_prompt_1:
  "current_password_prompt 1 = ''Enter current password (Attempt 2 / 3)''"
  by code_simp



lemma your_password_prompt_0: "your_password_prompt 0 = ''Enter your password''"
  by (simp add: your_password_prompt_def)

lemma your_password_prompt_1:
  "your_password_prompt 1 = ''Enter your password (Attempt 2 / 3)''"
  by code_simp

lemma your_password_prompt_2:
  "your_password_prompt 2 = ''Enter your password (Attempt 3 / 3)''"
  by code_simp

lemma nonblank_Cons_dropWhile:
  "nonblank as = a # rest \<Longrightarrow>
   \<exists>ys. dropWhile (\<lambda>a. a = []) as = a # ys \<and> nonblank ys = rest"
  by (induction as) (auto simp: nonblank_def split: if_splits)


lemma typer_prompt_answer:
  "nonblank (answers w) = a # rest \<Longrightarrow>
   \<exists>ys. typer_prompt t w = (Inr a, w\<lparr>answers := ys, trace := trace w @ [EvPrompt t]\<rparr>)
        \<and> nonblank ys = rest"
proof -
  assume "nonblank (answers w) = a # rest"
  from nonblank_Cons_dropWhile [OF this]
  obtain ys where d: "dropWhile (\<lambda>a. a = []) (answers w) = a # ys"
    and ys: "nonblank ys = rest"
    by auto
  have "typer_prompt t w = (Inr a, w\<lparr>answers := ys, trace := trace w @ [EvPrompt t]\<rparr>)"
    using d by (simp add: typer_prompt_def emit_def)
  with ys show ?thesis
    by blast
qed

lemma typer_confirm_answer:
  "confirms w = b # rest \<Longrightarrow>
   typer_confirm t w = (Inr b, w\<lparr>confirms := rest, trace := trace w @ [EvConfirm t]\<rparr>)"
  by (simp add: typer_confirm_def emit_def)

lemma current_password_loop_first:
  assumes "nonblank (answers w) = a # rest" and "core_load core (stored w) a = Inr cm"
  shows "\<exists>ys. current_password_loop core (i # is) w =
     (Inr (Some (a, cm)),
      w\<lparr>answers := ys,
        trace := trace w @ [EvPrompt (current_password_prompt i), EvLoad (stored w) a]\<rparr>)
     \<and> nonblank ys = rest"
proof -
  from typer_prompt_answer [OF assms(1), of "current_password_prompt i"]
  obtain ys where p: "typer_prompt (current_password_prompt i) w =
      (Inr a, w\<lparr>answers := ys, trace := trace w @ [EvPrompt (current_password_prompt i)]\<rparr>)"
    and ys: "nonblank ys = rest"
    by auto
  show ?thesis
    using p ys assms(2)
    by (intro exI [of _ ys]) (simp add: get_exisiting_cm_loaded emit_def)
qed

lemma current_password_loop_starts:
  assumes "nonblank (answers w) = a # rest"
  shows "prefix (trace w @ [EvPrompt (current_password_prompt i), EvLoad (stored w) a])
           (trace (snd (current_password_loop core (i # is) w)))"
proof -
  from typer_prompt_answer [OF assms, of "current_password_prompt i"]
  obtain ys where p: "typer_prompt (current_password_prompt i) w =
      (Inr a, w\<lparr>answers := ys, trace := trace w @ [EvPrompt (current_password_prompt i)]\<rparr>)"
    by auto
  let ?w1 = "w\<lparr>answers := ys, trace := trace w @ [EvPrompt (current_password_prompt i)]\<rparr>"
  obtain r2 w2 where g: "get_exisiting_cm core a ?w1 = (r2, w2)"
    by (cases "get_exisiting_cm core a ?w1")
  have s: "prefix (trace w @ [EvPrompt (current_password_prompt i), EvLoad (stored w) a]) (trace w2)"
    using get_exisiting_cm_starts [of ?w1 a core] g by simp
  have l: "prefix (trace w2) (trace (snd (current_password_loop core is w2)))"
    by (rule prefix_current_password_loop)
  from s l have sl: "prefix (trace w @ [EvPrompt (current_password_prompt i), EvLoad (stored w) a])
      (trace (snd (current_password_loop core is w2)))"
    by (rule prefix_order.trans)
  show ?thesis
    using p g s sl by (simp split: sum.splits option.splits)
qed

lemma update_password_extends_loop:
  assumes "CREDENTIALS_EXIST g"
  shows "prefix (trace (snd (current_password_loop core [0, 1, 2] w)))
           (trace (snd (update_password core g w)))"
proof -
  obtain r1 w1 where l: "current_password_loop core [0, 1, 2] w = (r1, w1)"
    by (cases "current_password_loop core [0, 1, 2] w")
  have c: "prefix (trace w1) (trace (emit ev w1))" for ev
    by (simp add: emit_def)
  have n: "prefix (trace w1) (trace (snd (set_new_password core v w1)))" for v
    by (rule prefix_set_new_password)
  show ?thesis
    using assms l c n
    by (simp add: update_password_def upt_0_3 split: sum.splits option.splits)
qed

lemma update_password_starts:
  assumes "CREDENTIALS_EXIST g" and "nonblank (answers w) = a # rest"
  shows "prefix (trace w @ [EvPrompt ''Enter current password'', EvLoad (stored w) a])
           (trace (snd (update_password core g w)))"
proof -
  have "prefix (trace w @ [EvPrompt ''Enter current password'', EvLoad (stored w) a])
          (trace (snd (current_password_loop core [0, 1, 2] w)))"
    using current_password_loop_starts [OF assms(2), of 0 core "[1, 2]"]
    by (simp add: current_password_prompt_0)
  then show ?thesis
    using update_password_extends_loop [OF assms(1), of core w]
    by (rule prefix_order.trans)
qed

lemma current_password_loop_retry_after_corruption:
  assumes "stored w = Some c" and "nonblank (answers w) = a1 # a2 # rest"
    and "core_load core (Some c) a1 = Inl e" and "is_type_or_value_error e"
    and "\<not> markup_fails w (''Error: '' @ str_exn e)"
  shows "prefix
      (trace w @
         [EvPrompt (current_password_prompt i),
          EvLoad (Some c) a1,
          EvPrint ''Oh no! The credentials file is corrupted.'',
          EvPrint (''Error: '' @ str_exn e),
          EvUnlink,
          EvPrint ''For the security of your credentials, it has now been deleted'',
          EvPrint ''Please recreate your credentials with the following command'',
          EvPrint ''  lazycodr config credentials'',
          EvPrompt (current_password_prompt j),
          EvLoad None a2])
      (trace (snd (current_password_loop core (i # j # is) w)))"
proof -
  from typer_prompt_answer [OF assms(2), of "current_password_prompt i"]
  obtain ys where p: "typer_prompt (current_password_prompt i) w =
      (Inr a1, w\<lparr>answers := ys, trace := trace w @ [EvPrompt (current_password_prompt i)]\<rparr>)"
    and ys: "nonblank ys = a2 # rest"
    by auto
  let ?w1 = "w\<lparr>answers := ys,
                 trace := trace w @ [EvPrompt (current_password_prompt i)]\<rparr>"
  let ?w2 = "?w1\<lparr>stored := None,
        trace := trace ?w1 @
          [EvLoad (Some c) a1,
           EvPrint ''Oh no! The credentials file is corrupted.'',
           EvPrint (''Error: '' @ str_exn e),
           EvUnlink,
           EvPrint ''For the security of your credentials, it has now been deleted'',
           EvPrint ''Please recreate your credentials with the following command'',
           EvPrint ''  lazycodr config credentials'']\<rparr>"
  have l: "core_load core (stored ?w1) a1 = Inl e"
    using assms(1,3) by simp
  have g: "get_exisiting_cm core a1 ?w1 = (Inr None, ?w2)"
    using assms(1,5) by (simp add: get_exisiting_cm_corrupted [OF l assms(4)])
  have step: "current_password_loop core (i # j # is) w = current_password_loop core (j # is) ?w2"
    using p g by simp
  have "prefix (trace ?w2 @ [EvPrompt (current_password_prompt j), EvLoad (stored ?w2) a2])
           (trace (snd (current_password_loop core (j # is) ?w2)))"
    using ys by (intro current_password_loop_starts) simp
  then show ?thesis
    unfolding step by simp
qed

lemma delete_loop_starts:
  assumes "nonblank (answers w) = a # rest"
  shows "prefix (trace w @ [EvPrompt (your_password_prompt i), EvLoad (stored w) a])
           (trace (snd (delete_loop core (i # is) w)))"
proof -
  from typer_prompt_answer [OF assms, of "your_password_prompt i"]
  obtain ys where p: "typer_prompt (your_password_prompt i) w =
      (Inr a, w\<lparr>answers := ys, trace := trace w @ [EvPrompt (your_password_prompt i)]\<rparr>)"
    by auto
  let ?w1 = "w\<lparr>answers := ys, trace := trace w @ [EvPrompt (your_password_prompt i)]\<rparr>"
  obtain r2 w2 where g: "get_exisiting_cm core a ?w1 = (r2, w2)"
    by (cases "get_exisiting_cm core a ?w1")
  have s: "prefix (trace w @ [EvPrompt (your_password_prompt i), EvLoad (stored w) a]) (trace w2)"
    using get_exisiting_cm_starts [of ?w1 a core] g by simp
  have l: "prefix (trace w2) (trace (snd (delete_loop core is w2)))"
    by (rule prefix_delete_loop)
  have u: "prefix (trace w2) (trace (snd (os_unlink w2)))"
    by (rule prefix_os_unlink)
  have c: "prefix (trace (snd (os_unlink w2))) (trace (emit ev (snd (os_unlink w2))))" for ev
    by (simp add: emit_def)
  note sl = prefix_order.trans [OF s l]
  note su = prefix_order.trans [OF s u]
  note sc = prefix_order.trans [OF su c]
  show ?thesis
    using p g s sl su sc by (auto split: sum.splits option.splits prod.splits)
qed

lemma delete_credentials_starts:
  assumes "CREDENTIALS_EXIST g" and "confirms w = True # cs"
    and "nonblank (answers w) = a # rest"
  shows "prefix
      (trace w @
         [EvConfirm ''Are you sure you want to delete your credentials?'',
          EvPrompt ''Enter your password'',
          EvLoad (stored w) a])
      (trace (snd (delete_credentials core g w)))"
proof -
  let ?w1 = "w\<lparr>confirms := cs,
     trace := trace w @ [EvConfirm ''Are you sure you want to delete your credentials?'']\<rparr>"
  have q: "typer_confirm ''Are you sure you want to delete your credentials?'' w = (Inr True, ?w1)"
    using assms(2) by (rule typer_confirm_answer)
  obtain r2 w2 where l: "delete_loop core [0, 1, 2] ?w1 = (r2, w2)"
    by (cases "delete_loop core [0, 1, 2] ?w1")
  have s: "prefix (trace ?w1 @ [EvPrompt (your_password_prompt 0), EvLoad (stored ?w1) a]) (trace w2)"
    using delete_loop_starts [of ?w1 a rest 0 core "[1, 2]"] assms(3) l by simp
  have c: "prefix (trace w2) (trace (emit ev w2))" for ev
    by (simp add: emit_def)
  note sc = prefix_order.trans [OF s c]
  show ?thesis
    using assms(1) q l s sc
    by (simp add: delete_credentials_def upt_0_3 your_password_prompt_def
        split: sum.splits bool.splits)
qed

lemma credentials_starts:
  assumes "CREDENTIALS_EXIST g"
  shows "prefix (trace w @ [EvLoad (stored w) p])
           (trace (snd (credentials core g k t p w)))"
proof -
  obtain r1 w1 where l: "get_exisiting_cm core p w = (r1, w1)"
    by (cases "get_exisiting_cm core p w")
  have s: "prefix (trace w @ [EvLoad (stored w) p]) (trace w1)"
    using get_exisiting_cm_starts [of w p core] l by simp
  have "prefix (trace w1) (trace (emit ev'' (cm_save core cm (emit ev (emit ev' w1)))))"
    for cm ev ev' ev''
    by (simp add: cm_save_def emit_def)
  note sc = prefix_order.trans [OF s this]
  show ?thesis
    using assms l s sc
    by (simp add: credentials_def Let_def split: sum.splits option.splits)
qed

section \<open>\<open>CREDENTIALS_EXIST\<close> is read at import and never again\<close>

text \<open>
  Claim C9. When the module is imported, \<open>CREDENTIALS_EXIST\<close> becomes whether the file
  exists then, and \<open>PSWD_PROMPT\<close> the text that goes with it. The commands take the
  globals as they were assigned then, whatever the path holds when they run.
  If the file existed at import and is gone when a command runs, \<open>credentials\<close>,
  \<open>update_password\<close> and \<open>delete_credentials\<close> (once the user has confirmed) all still
  take the branch for an existing file and call \<open>CredentialsManager.load\<close> on the
  missing path. Inside one run of \<open>update_password\<close>: when the first attempt finds the
  file corrupted and the error is printed, \<open>get_exisiting_cm\<close> deletes the file and the
  second attempt calls \<open>load\<close> on the path that no longer exists. If there was no file at
  import, then whatever the path holds at run time, \<open>delete_credentials\<close> reports that
  there is nothing to delete and \<open>credentials\<close> saves a new manager without a call of
  \<open>load\<close>.
\<close>

theorem CREDENTIALS_EXIST_is_stale:
  "CREDENTIALS_EXIST (import_module w0) = (stored w0 \<noteq> None)
    \<and> PSWD_PROMPT (import_module w0) =
        (if stored w0 \<noteq> None then ''Confirm your password''
         else ''Please setup a password so your credentials can be encrypted''
              @ [CHR 0x0A] @ ''Password'')
    \<and> (stored w0 \<noteq> None \<longrightarrow> stored w = None \<longrightarrow>
         prefix (trace w @ [EvLoad None p])
           (trace (snd (credentials core (import_module w0) openai_api_key github_token p w))))
    \<and> (stored w0 \<noteq> None \<longrightarrow> stored w = None \<longrightarrow> nonblank (answers w) = a # rest \<longrightarrow>
         prefix (trace w @ [EvPrompt ''Enter current password'', EvLoad None a])
           (trace (snd (update_password core (import_module w0) w))))
    \<and> (stored w0 \<noteq> None \<longrightarrow> stored w = None \<longrightarrow> nonblank (answers w) = a # rest \<longrightarrow>
       confirms w = True # cs \<longrightarrow>
         prefix
           (trace w @
              [EvConfirm ''Are you sure you want to delete your credentials?'',
               EvPrompt ''Enter your password'',
               EvLoad None a])
           (trace (snd (delete_credentials core (import_module w0) w))))
    \<and> (stored w0 \<noteq> None \<longrightarrow> stored w = Some c \<longrightarrow> nonblank (answers w) = a # a2 # rest2 \<longrightarrow>
         core_load core (Some c) a = Inl e \<longrightarrow> is_type_or_value_error e \<longrightarrow>
         \<not> markup_fails w (''Error: '' @ str_exn e) \<longrightarrow>
         prefix
           (trace w @
              [EvPrompt ''Enter current password'',
               EvLoad (Some c) a,
               EvPrint ''Oh no! The credentials file is corrupted.'',
               EvPrint (''Error: '' @ str_exn e),
               EvUnlink,
               EvPrint ''For the security of your credentials, it has now been deleted'',
               EvPrint ''Please recreate your credentials with the following command'',
               EvPrint ''  lazycodr config credentials'',
               EvPrompt ''Enter current password (Attempt 2 / 3)'',
               EvLoad None a2])
           (trace (snd (update_password core (import_module w0) w))))
    \<and> (stored w0 = None \<longrightarrow>
         delete_credentials core (import_module w0) w =
           (Inr (), w\<lparr>trace := trace w @ [EvPrint ''There are no credentials to delete'']\<rparr>)
         \<and> credentials core (import_module w0) openai_api_key github_token p w =
           (Inr (),
            w\<lparr>stored := Some (core_save core
                   (core_setitem core
                      (core_setitem core (core_new core p) ''openai_api_key'' openai_api_key)
                      ''github_token'' github_token)),
              trace := trace w @
                [EvNew p,
                 EvSetItem ''openai_api_key'' openai_api_key,
                 EvSetItem ''github_token'' github_token,
                 EvSave (core_save core
                   (core_setitem core
                      (core_setitem core (core_new core p) ''openai_api_key'' openai_api_key)
                      ''github_token'' github_token)),
                 EvPrint ''Credentials securely saved'']\<rparr>))"
proof -
  let ?g = "import_module w0"
  have ex: "CREDENTIALS_EXIST ?g = (stored w0 \<noteq> None)"
    by (simp add: import_module_def Let_def)
  have pp: "PSWD_PROMPT ?g =
        (if stored w0 \<noteq> None then ''Confirm your password''
         else ''Please setup a password so your credentials can be encrypted''
              @ [CHR 0x0A] @ ''Password'')"
    by (simp add: import_module_def Let_def)
  have cr: "stored w0 \<noteq> None \<longrightarrow> stored w = None \<longrightarrow>
         prefix (trace w @ [EvLoad None p])
           (trace (snd (credentials core ?g openai_api_key github_token p w)))"
    using credentials_starts [of ?g w p core openai_api_key github_token] ex by auto
  have up: "stored w0 \<noteq> None \<longrightarrow> stored w = None \<longrightarrow> nonblank (answers w) = a # rest \<longrightarrow>
         prefix (trace w @ [EvPrompt ''Enter current password'', EvLoad None a])
           (trace (snd (update_password core ?g w)))"
    using update_password_starts [of ?g w a rest core] ex by auto
  have de: "stored w0 \<noteq> None \<longrightarrow> stored w = None \<longrightarrow> nonblank (answers w) = a # rest \<longrightarrow>
       confirms w = True # cs \<longrightarrow>
         prefix
           (trace w @
              [EvConfirm ''Are you sure you want to delete your credentials?'',
               EvPrompt ''Enter your password'',
               EvLoad None a])
           (trace (snd (delete_credentials core ?g w)))"
    using delete_credentials_starts [of ?g w cs a rest core] ex by auto
  have re: "stored w0 \<noteq> None \<longrightarrow> stored w = Some c \<longrightarrow> nonblank (answers w) = a # a2 # rest2 \<longrightarrow>
         core_load core (Some c) a = Inl e \<longrightarrow> is_type_or_value_error e \<longrightarrow>
         \<not> markup_fails w (''Error: '' @ str_exn e) \<longrightarrow>
         prefix
           (trace w @
              [EvPrompt ''Enter current password'',
               EvLoad (Some c) a,
               EvPrint ''Oh no! The credentials file is corrupted.'',
               EvPrint (''Error: '' @ str_exn e),
               EvUnlink,
               EvPrint ''For the security of your credentials, it has now been deleted'',
               EvPrint ''Please recreate your credentials with the following command'',
               EvPrint ''  lazycodr config credentials'',
               EvPrompt ''Enter current password (Attempt 2 / 3)'',
               EvLoad None a2])
           (trace (snd (update_password core ?g w)))"
  proof (intro impI)
    assume e0: "stored w0 \<noteq> None"
      and h: "stored w = Some c" "nonblank (answers w) = a # a2 # rest2"
      "core_load core (Some c) a = Inl e" "is_type_or_value_error e"
      "\<not> markup_fails w (''Error: '' @ str_exn e)"
    have "prefix
      (trace w @
         [EvPrompt (current_password_prompt 0),
          EvLoad (Some c) a,
          EvPrint ''Oh no! The credentials file is corrupted.'',
          EvPrint (''Error: '' @ str_exn e),
          EvUnlink,
          EvPrint ''For the security of your credentials, it has now been deleted'',
          EvPrint ''Please recreate your credentials with the following command'',
          EvPrint ''  lazycodr config credentials'',
          EvPrompt (current_password_prompt 1),
          EvLoad None a2])
      (trace (snd (current_password_loop core [0, 1, 2] w)))"
      using h by (rule current_password_loop_retry_after_corruption)
    then have "prefix
           (trace w @
              [EvPrompt ''Enter current password'',
               EvLoad (Some c) a,
               EvPrint ''Oh no! The credentials file is corrupted.'',
               EvPrint (''Error: '' @ str_exn e),
               EvUnlink,
               EvPrint ''For the security of your credentials, it has now been deleted'',
               EvPrint ''Please recreate your credentials with the following command'',
               EvPrint ''  lazycodr config credentials'',
               EvPrompt ''Enter current password (Attempt 2 / 3)'',
               EvLoad None a2])
           (trace (snd (current_password_loop core [0, 1, 2] w)))"
      by (simp only: current_password_prompt_0 current_password_prompt_1)
    then show "prefix
           (trace w @
              [EvPrompt ''Enter current password'',
               EvLoad (Some c) a,
               EvPrint ''Oh no! The credentials file is corrupted.'',
               EvPrint (''Error: '' @ str_exn e),
               EvUnlink,
               EvPrint ''For the security of your credentials, it has now been deleted'',
               EvPrint ''Please recreate your credentials with the following command'',
               EvPrint ''  lazycodr config credentials'',
               EvPrompt ''Enter current password (Attempt 2 / 3)'',
               EvLoad None a2])
           (trace (snd (update_password core ?g w)))"
      using update_password_extends_loop [of ?g core w] ex e0
      by (auto intro: prefix_order.trans)
  qed
  have ab: "stored w0 = None \<longrightarrow>
         delete_credentials core ?g w =
           (Inr (), w\<lparr>trace := trace w @ [EvPrint ''There are no credentials to delete'']\<rparr>)
         \<and> credentials core ?g openai_api_key github_token p w =
           (Inr (),
            w\<lparr>stored := Some (core_save core
                   (core_setitem core
                      (core_setitem core (core_new core p) ''openai_api_key'' openai_api_key)
                      ''github_token'' github_token)),
              trace := trace w @
                [EvNew p,
                 EvSetItem ''openai_api_key'' openai_api_key,
                 EvSetItem ''github_token'' github_token,
                 EvSave (core_save core
                   (core_setitem core
                      (core_setitem core (core_new core p) ''openai_api_key'' openai_api_key)
                      ''github_token'' github_token)),
                 EvPrint ''Credentials securely saved'']\<rparr>)"
    by (simp add: import_module_def Let_def delete_credentials_def credentials_def
        cm_save_def emit_def)
  from ex pp cr up de re ab show ?thesis
    by (intro conjI)
qed

theorem CREDENTIALS_EXIST_is_stale_witness:
  "CREDENTIALS_EXIST (import_module (world0 (Some (Garbage ''{'')) [] []))
   \<and> \<not> CREDENTIALS_EXIST (import_module (world0 None [] []))
   \<and> PSWD_PROMPT (import_module (world0 None [] [])) =
       ''Please setup a password so your credentials can be encrypted''
       @ [CHR 0x0A] @ ''Password''
   \<and> prefix [EvLoad None ''pw'']
        (trace (snd (credentials example_core
                       (import_module (world0 (Some (Garbage ''{'')) [] []))
                       ''sk-1'' ''ghp-2'' ''pw'' (world0 None [''pw''] [True]))))
   \<and> prefix [EvPrompt ''Enter current password'', EvLoad None ''pw'']
        (trace (snd (update_password example_core
                       (import_module (world0 (Some (Garbage ''{'')) [] []))
                       (world0 None [''pw''] [True]))))
   \<and> prefix [EvConfirm ''Are you sure you want to delete your credentials?'',
              EvPrompt ''Enter your password'',
              EvLoad None ''pw'']
        (trace (snd (delete_credentials example_core
                       (import_module (world0 (Some (Garbage ''{'')) [] []))
                       (world0 None [''pw''] [True]))))
   \<and> prefix [EvPrompt ''Enter current password'',
              EvLoad (Some (Garbage ''{'')) ''pw'',
              EvPrint ''Oh no! The credentials file is corrupted.'',
              EvPrint ''Error: Expecting value'',
              EvUnlink,
              EvPrint ''For the security of your credentials, it has now been deleted'',
              EvPrint ''Please recreate your credentials with the following command'',
              EvPrint ''  lazycodr config credentials'',
              EvPrompt ''Enter current password (Attempt 2 / 3)'',
              EvLoad None ''pw'']
        (trace (snd (update_password example_core
                       (import_module (world0 (Some (Garbage ''{'')) [] []))
                       (world0 (Some (Garbage ''{'')) [''pw'', ''pw''] []))))
   \<and> delete_credentials example_core (import_module (world0 None [] []))
        (world0 (Some (Sealed ''pw'' [])) [] []) =
       (Inr (),
        \<lparr>stored = Some (Sealed ''pw'' []), answers = [], confirms = [],
         trace = [EvPrint ''There are no credentials to delete''],
         renders = example_renders\<rparr>)"
proof -
  note a = CREDENTIALS_EXIST_is_stale [of "world0 (Some (Garbage ''{'')) [] []"
      "world0 None [''pw''] [True]"
      "''pw''" example_core "''sk-1''" "''ghp-2''" "''pw''" "[]" "[]"]
  note b = CREDENTIALS_EXIST_is_stale [of "world0 (Some (Garbage ''{'')) [] []"
      "world0 (Some (Garbage ''{'')) [''pw'', ''pw''] []"
      _ example_core _ _ "''pw''" _ _ "Garbage ''{''" "''pw''" "[]"
      "ValueError ''Expecting value''"]
  note c = CREDENTIALS_EXIST_is_stale [of "world0 None [] []"
      "world0 (Some (Sealed ''pw'' [])) [] []" "''pw''" example_core "''sk-1''" "''ghp-2''"]
  from a b c show ?thesis
    by (simp add: world0_def example_core_def nonblank_def markup_fails_def)
qed

section \<open>Which manager \<open>update_password\<close> saves\<close>





section \<open>Three attempts at the current password\<close>

subsection \<open>Counting the prompts\<close>

lemma is_password_prompt_current [simp]:
  "prefix ''Enter current password'' (current_password_prompt i)"
  by (simp add: current_password_prompt_def)

lemma is_password_prompt_your [simp]:
  "prefix ''Enter your password'' (your_password_prompt i)"
  by (simp add: your_password_prompt_def)

lemma password_prompts_append [simp]:
  "password_prompts (xs @ ys) = password_prompts xs + password_prompts ys"
  by (simp add: password_prompts_def)

lemma password_prompts_Cons [simp]:
  "password_prompts (e # es) = (if is_password_prompt e then 1 else 0) + password_prompts es"
  by (simp add: password_prompts_def)

lemma password_prompts_Nil [simp]: "password_prompts [] = 0"
  by (simp add: password_prompts_def)

lemma password_prompts_get_exisiting_cm:
  "password_prompts (trace (snd (get_exisiting_cm core p w))) = password_prompts (trace w)"
  by (simp add: get_exisiting_cm_def after_print_cases emit_def os_unlink_def Let_def
      split: sum.splits option.splits)

lemma password_prompts_os_unlink:
  "password_prompts (trace (snd (os_unlink w))) = password_prompts (trace w)"
  by (simp add: os_unlink_def emit_def split: option.splits)

lemma password_prompts_typer_prompt:
  "password_prompts (trace (snd (typer_prompt t w))) =
     password_prompts (trace w) + (if is_password_prompt (EvPrompt t) then 1 else 0)"
  by (simp add: typer_prompt_def emit_def Let_def split: list.splits)

lemma password_prompts_current_password_loop:
  "password_prompts (trace (snd (current_password_loop core is w)))
     \<le> password_prompts (trace w) + length is"
proof (induction "is" arbitrary: w)
  case Nil
  show ?case by simp
next
  case (Cons i rest)
  obtain r1 w1 where p: "typer_prompt (current_password_prompt i) w = (r1, w1)"
    by (cases "typer_prompt (current_password_prompt i) w")
  have w1: "password_prompts (trace w1) = password_prompts (trace w) + 1"
    using password_prompts_typer_prompt [of "current_password_prompt i" w] p by simp
  show ?case
  proof (cases r1)
    case (Inl e)
    with p w1 show ?thesis by simp
  next
    case (Inr a)
    obtain r2 w2 where g: "get_exisiting_cm core a w1 = (r2, w2)"
      by (cases "get_exisiting_cm core a w1")
    have w2: "password_prompts (trace w2) = password_prompts (trace w1)"
      using password_prompts_get_exisiting_cm [of core a w1] g by simp
    have "password_prompts (trace (snd (current_password_loop core rest w2)))
            \<le> password_prompts (trace w2) + length rest"
      by (rule Cons.IH)
    with w1 w2 p Inr g show ?thesis
      by (auto split: sum.splits option.splits)
  qed
qed

lemma password_prompts_delete_loop:
  "password_prompts (trace (snd (delete_loop core is w)))
     \<le> password_prompts (trace w) + length is"
proof (induction "is" arbitrary: w)
  case Nil
  show ?case by simp
next
  case (Cons i rest)
  obtain r1 w1 where p: "typer_prompt (your_password_prompt i) w = (r1, w1)"
    by (cases "typer_prompt (your_password_prompt i) w")
  have w1: "password_prompts (trace w1) = password_prompts (trace w) + 1"
    using password_prompts_typer_prompt [of "your_password_prompt i" w] p by simp
  show ?case
  proof (cases r1)
    case (Inl e)
    with p w1 show ?thesis by simp
  next
    case (Inr a)
    obtain r2 w2 where g: "get_exisiting_cm core a w1 = (r2, w2)"
      by (cases "get_exisiting_cm core a w1")
    have w2: "password_prompts (trace w2) = password_prompts (trace w1)"
      using password_prompts_get_exisiting_cm [of core a w1] g by simp
    obtain r3 w3 where u: "os_unlink w2 = (r3, w3)"
      by (cases "os_unlink w2")
    have w3: "password_prompts (trace w3) = password_prompts (trace w2)"
      using password_prompts_os_unlink [of w2] u by simp
    have ih: "password_prompts (trace (snd (delete_loop core rest w2)))
            \<le> password_prompts (trace w2) + length rest"
      by (rule Cons.IH)
    show ?thesis
    proof (cases r2)
      case (Inl e)
      with p Inr g w1 w2 show ?thesis by simp
    next
      case r2: (Inr v)
      show ?thesis
      proof (cases v)
        case None
        with p Inr g r2 w1 w2 ih show ?thesis by simp
      next
        case (Some cm)
        with p Inr g r2 w1 w2 u w3 show ?thesis
          by (cases r3) (simp_all add: emit_def)
      qed
    qed
  qed
qed

lemma password_prompts_new_password_loop:
  "password_prompts (trace (snd (new_password_loop w))) = password_prompts (trace w)"
proof (induction w rule: new_password_loop.induct)
  case (1 w)
  obtain r1 w1 where p1: "typer_prompt ''Enter new password'' w = (r1, w1)"
    by (cases "typer_prompt ''Enter new password'' w")
  have w1: "password_prompts (trace w1) = password_prompts (trace w)"
    using password_prompts_typer_prompt [of "''Enter new password''" w] p1 by simp
  show ?case
  proof (cases r1)
    case (Inl e)
    with p1 w1 show ?thesis by (subst new_password_loop.simps) simp
  next
    case r1: (Inr n)
    obtain r2 w2 where p2: "typer_prompt ''Re-enter new password'' w1 = (r2, w2)"
      by (cases "typer_prompt ''Re-enter new password'' w1")
    have w2: "password_prompts (trace w2) = password_prompts (trace w)"
      using password_prompts_typer_prompt [of "''Re-enter new password''" w1] p2 w1 by simp
    show ?thesis
    proof (cases r2)
      case (Inl e)
      with p1 r1 p2 w2 show ?thesis by (subst new_password_loop.simps) simp
    next
      case r2: (Inr c)
      show ?thesis
      proof (cases "n = c")
        case True
        with p1 r1 p2 r2 w2 show ?thesis by (subst new_password_loop.simps) simp
      next
        case False
        let ?w3 = "emit (EvPrint (''Passwords do not match. Retry'' @ [CHR 0x0A])) w2"
        note cp = console_print_mismatch [of w2]
        have "password_prompts (trace (snd (new_password_loop ?w3))) = password_prompts (trace ?w3)"
          using "1.IH" [OF p1 [symmetric] r1 p2 [symmetric] r2 False cp [symmetric] refl]
          by simp
        moreover have "password_prompts (trace ?w3) = password_prompts (trace w2)"
          by (simp add: emit_def)
        ultimately have "password_prompts (trace (snd (new_password_loop ?w3)))
            = password_prompts (trace w)"
          using w2 by simp
        with p1 r1 p2 r2 False cp show ?thesis
          by (subst new_password_loop.simps) simp
      qed
    qed
  qed
qed

lemma password_prompts_saved:
  "password_prompts (trace (emit (EvPrint s) (cm_save core cm (emit ev w1)))) =
     password_prompts (trace w1) + (if is_password_prompt ev then 1 else 0)"
  by (simp add: cm_save_def emit_def)

lemma password_prompts_set_new_password:
  "password_prompts (trace (snd (set_new_password core v w))) = password_prompts (trace w)"
proof -
  obtain r1 w1 where n: "new_password_loop w = (r1, w1)"
    by (cases "new_password_loop w")
  have w1: "password_prompts (trace w1) = password_prompts (trace w)"
    using password_prompts_new_password_loop [of w] n by simp
  show ?thesis
  proof (cases r1)
    case (Inl e)
    with n w1 show ?thesis by (simp add: set_new_password_def)
  next
    case (Inr new_password)
    show ?thesis
    proof (cases "\<exists>curr cm. v = Some (curr, cm) \<and> curr \<noteq> []")
      case True
      then obtain curr cm where v: "v = Some (curr, cm)" "curr \<noteq> []" by blast
      show ?thesis
      proof (cases "core_update_password core cm curr new_password")
        case (Inl ex)
        with n Inr v w1 show ?thesis by (simp add: set_new_password_def emit_def)
      next
        case u: (Inr cm')
        with n Inr v w1 show ?thesis
          by (simp add: set_new_password_def password_prompts_saved)
      qed
    next
      case False
      then have "v = None \<or> (\<exists>cm. v = Some ([], cm))" by (cases v) auto
      with n Inr w1 show ?thesis
        by (auto simp: set_new_password_def password_prompts_saved)
    qed
  qed
qed

lemma rejected_step:
  assumes "rejected core (renders w) (stored w) (a # ws) = Some f'"
  shows "\<exists>w2. get_exisiting_cm core a w = (Inr None, w2)
           \<and> rejected core (renders w2) (stored w2) ws = Some f'
           \<and> answers w2 = answers w
           \<and> password_prompts (trace w2) = password_prompts (trace w)"
proof (cases "core_load core (stored w) a")
  case (Inr cm)
  with assms show ?thesis by simp
next
  case (Inl e)
  show ?thesis
  proof (cases "is_type_or_value_error e")
    case True
    with assms Inl obtain c where c: "stored w = Some c"
      and m: "\<not> markup_fails w (''Error: '' @ str_exn e)"
      and r: "rejected core (renders w) None ws = Some f'"
      by (auto simp: markup_fails_def split: option.splits if_splits)
    show ?thesis
      using r m c by (simp add: get_exisiting_cm_corrupted [OF Inl True])
  next
    case False
    with assms Inl have i: "is_incorrect_password e"
      and m: "\<not> markup_fails w (str_exn e)"
      and r: "rejected core (renders w) (stored w) ws = Some f'"
      by (auto simp: markup_fails_def split: if_splits)
    from i obtain msg where "e = IncorrectPasswordError msg"
      by (cases e) auto
    with Inl r m show ?thesis
      by (simp add: get_exisiting_cm_incorrect)
  qed
qed

lemma current_password_loop_wrongs:
  assumes "length wrongs = length is1"
    and "rejected core (renders w) (stored w) wrongs = Some f'"
    and "nonblank (answers w) = wrongs @ rest"
  shows "\<exists>w'. current_password_loop core (is1 @ is2) w = current_password_loop core is2 w'
           \<and> stored w' = f' \<and> nonblank (answers w') = rest
           \<and> password_prompts (trace w') = password_prompts (trace w) + length wrongs"
  using assms
proof (induction wrongs is1 arbitrary: w rule: list_induct2)
  case Nil
  then show ?case by (intro exI [of _ w]) simp
next
  case (Cons a ws i "is")
  from Cons.prems(2) have "nonblank (answers w) = a # (ws @ rest)"
    by simp
  from typer_prompt_answer [OF this, of "current_password_prompt i"]
  obtain ys where p: "typer_prompt (current_password_prompt i) w =
      (Inr a, w\<lparr>answers := ys, trace := trace w @ [EvPrompt (current_password_prompt i)]\<rparr>)"
    and ys: "nonblank ys = ws @ rest"
    by auto
  let ?w1 = "w\<lparr>answers := ys,
                 trace := trace w @ [EvPrompt (current_password_prompt i)]\<rparr>"
  have "rejected core (renders ?w1) (stored ?w1) (a # ws) = Some f'"
    using Cons.prems(1) by simp
  from rejected_step [OF this] obtain w2 where
    g: "get_exisiting_cm core a ?w1 = (Inr None, w2)"
    and r: "rejected core (renders w2) (stored w2) ws = Some f'"
    and a: "nonblank (answers w2) = ws @ rest"
    and c: "password_prompts (trace w2) = password_prompts (trace w) + 1"
    using ys by auto
  have step: "current_password_loop core ((i # is) @ is2) w
                = current_password_loop core (is @ is2) w2"
    using p g by simp
  have "\<exists>w'. current_password_loop core (is @ is2) w2 = current_password_loop core is2 w'
           \<and> stored w' = f' \<and> nonblank (answers w') = rest
           \<and> password_prompts (trace w') = password_prompts (trace w2) + length ws"
    using r a by (rule Cons.IH)
  then show ?case
    unfolding step using c by auto
qed

lemma delete_loop_wrongs:
  assumes "length wrongs = length is1"
    and "rejected core (renders w) (stored w) wrongs = Some f'"
    and "nonblank (answers w) = wrongs @ rest"
  shows "\<exists>w'. delete_loop core (is1 @ is2) w = delete_loop core is2 w'
           \<and> stored w' = f' \<and> nonblank (answers w') = rest
           \<and> password_prompts (trace w') = password_prompts (trace w) + length wrongs"
  using assms
proof (induction wrongs is1 arbitrary: w rule: list_induct2)
  case Nil
  then show ?case by (intro exI [of _ w]) simp
next
  case (Cons a ws i "is")
  from Cons.prems(2) have "nonblank (answers w) = a # (ws @ rest)"
    by simp
  from typer_prompt_answer [OF this, of "your_password_prompt i"]
  obtain ys where p: "typer_prompt (your_password_prompt i) w =
      (Inr a, w\<lparr>answers := ys, trace := trace w @ [EvPrompt (your_password_prompt i)]\<rparr>)"
    and ys: "nonblank ys = ws @ rest"
    by auto
  let ?w1 = "w\<lparr>answers := ys,
                 trace := trace w @ [EvPrompt (your_password_prompt i)]\<rparr>"
  have "rejected core (renders ?w1) (stored ?w1) (a # ws) = Some f'"
    using Cons.prems(1) by simp
  from rejected_step [OF this] obtain w2 where
    g: "get_exisiting_cm core a ?w1 = (Inr None, w2)"
    and r: "rejected core (renders w2) (stored w2) ws = Some f'"
    and a: "nonblank (answers w2) = ws @ rest"
    and c: "password_prompts (trace w2) = password_prompts (trace w) + 1"
    using ys by auto
  have step: "delete_loop core ((i # is) @ is2) w = delete_loop core (is @ is2) w2"
    using p g by simp
  have "\<exists>w'. delete_loop core (is @ is2) w2 = delete_loop core is2 w'
           \<and> stored w' = f' \<and> nonblank (answers w') = rest
           \<and> password_prompts (trace w') = password_prompts (trace w2) + length ws"
    using r a by (rule Cons.IH)
  then show ?case
    unfolding step using c by auto
qed

lemma password_prompts_update_password:
  "password_prompts (trace (snd (update_password core g w))) \<le> password_prompts (trace w) + 3"
proof (cases "CREDENTIALS_EXIST g")
  case True
  obtain r1 w1 where l: "current_password_loop core [0, 1, 2] w = (r1, w1)"
    by (cases "current_password_loop core [0, 1, 2] w")
  have w1: "password_prompts (trace w1) \<le> password_prompts (trace w) + 3"
    using password_prompts_current_password_loop [of core "[0, 1, 2]" w] l by simp
  have c: "password_prompts (trace (emit (EvPrint ''Too many incorrect attempts.'') w1))
             = password_prompts (trace w1)"
    by (simp add: emit_def)
  have n: "password_prompts (trace (snd (set_new_password core v w1)))
             = password_prompts (trace w1)" for v
    by (rule password_prompts_set_new_password)
  show ?thesis
    using True l w1 c n
    by (simp add: update_password_def upt_0_3 split: sum.splits option.splits)
next
  case False
  let ?w1 = "emit (EvPrint ''There are no existing passwords to update'') w"
  obtain r2 w2 where q: "typer_confirm ''Would you like to create one?'' ?w1 = (r2, w2)"
    by (cases "typer_confirm ''Would you like to create one?'' ?w1")
  have w2: "password_prompts (trace w2) = password_prompts (trace w)"
    using q by (auto simp: typer_confirm_def emit_def Let_def split: list.splits)
  have n: "password_prompts (trace (snd (set_new_password core v w2)))
             = password_prompts (trace w2)" for v
    by (rule password_prompts_set_new_password)
  show ?thesis
    using False q w2 n
    by (simp add: update_password_def split: sum.splits)
qed

lemma password_prompts_delete_credentials:
  "password_prompts (trace (snd (delete_credentials core g w))) \<le> password_prompts (trace w) + 3"
proof (cases "CREDENTIALS_EXIST g")
  case False
  then show ?thesis
    by (simp add: delete_credentials_def emit_def)
next
  case True
  obtain r1 w1 where q:
    "typer_confirm ''Are you sure you want to delete your credentials?'' w = (r1, w1)"
    by (cases "typer_confirm ''Are you sure you want to delete your credentials?'' w")
  have w1: "password_prompts (trace w1) = password_prompts (trace w)"
    using q by (auto simp: typer_confirm_def emit_def Let_def split: list.splits)
  obtain r2 w2 where l: "delete_loop core [0, 1, 2] w1 = (r2, w2)"
    by (cases "delete_loop core [0, 1, 2] w1")
  have w2: "password_prompts (trace w2) \<le> password_prompts (trace w) + 3"
    using password_prompts_delete_loop [of core "[0, 1, 2]" w1] l w1 by simp
  have c: "password_prompts (trace (emit (EvPrint ''Too many incorrect attempts.'') w2))
             = password_prompts (trace w2)"
    by (simp add: emit_def)
  show ?thesis
    using True q w1 l w2 c
    by (simp add: delete_credentials_def upt_0_3 split: sum.splits bool.splits)
qed

lemma delete_loop_first:
  assumes "nonblank (answers w) = a # rest" and "core_load core (stored w) a = Inr cm"
  shows "password_prompts (trace (snd (delete_loop core (i # is) w)))
           = password_prompts (trace w) + 1"
proof -
  from typer_prompt_answer [OF assms(1), of "your_password_prompt i"]
  obtain ys where p: "typer_prompt (your_password_prompt i) w =
      (Inr a, w\<lparr>answers := ys, trace := trace w @ [EvPrompt (your_password_prompt i)]\<rparr>)"
    by auto
  show ?thesis
    using p assms(2)
    by (simp add: get_exisiting_cm_loaded emit_def os_unlink_def split: option.splits)
qed

lemma update_password_too_many:
  assumes "CREDENTIALS_EXIST g" and "length wrongs = 3"
    and "nonblank (answers w) = wrongs @ rest"
    and "rejected core (renders w) (stored w) wrongs = Some f'"
  shows "fst (update_password core g w) = Inl Abort
       \<and> last (trace (snd (update_password core g w))) = EvPrint ''Too many incorrect attempts.''
       \<and> stored (snd (update_password core g w)) = f'
       \<and> nonblank (answers (snd (update_password core g w))) = rest
       \<and> password_prompts (trace (snd (update_password core g w)))
           = password_prompts (trace w) + 3"
proof -
  have "length wrongs = length [0::nat, 1, 2]"
    using assms(2) by simp
  from current_password_loop_wrongs [OF this assms(4,3), of "[]"]
  obtain w' where w': "current_password_loop core [0, 1, 2] w = (Inr None, w')"
    "stored w' = f'" "nonblank (answers w') = rest"
    "password_prompts (trace w') = password_prompts (trace w) + 3"
    using assms(2) by auto
  have "update_password core g w
          = (Inl Abort, emit (EvPrint ''Too many incorrect attempts.'') w')"
    using assms(1) w'(1) by (simp add: update_password_def upt_0_3)
  with w' show ?thesis
    by (simp add: emit_def)
qed

lemma delete_credentials_too_many:
  assumes "CREDENTIALS_EXIST g" and "length wrongs = 3"
    and "nonblank (answers w) = wrongs @ rest"
    and "rejected core (renders w) (stored w) wrongs = Some f'"
    and "confirms w = True # cs"
  shows "fst (delete_credentials core g w) = Inl Abort
       \<and> last (trace (snd (delete_credentials core g w)))
           = EvPrint ''Too many incorrect attempts.''
       \<and> stored (snd (delete_credentials core g w)) = f'
       \<and> nonblank (answers (snd (delete_credentials core g w))) = rest
       \<and> password_prompts (trace (snd (delete_credentials core g w)))
           = password_prompts (trace w) + 3"
proof -
  let ?w1 = "w\<lparr>confirms := cs,
     trace := trace w @ [EvConfirm ''Are you sure you want to delete your credentials?'']\<rparr>"
  have q: "typer_confirm ''Are you sure you want to delete your credentials?'' w = (Inr True, ?w1)"
    using assms(5) by (rule typer_confirm_answer)
  have len: "length wrongs = length [0::nat, 1, 2]"
    using assms(2) by simp
  have wr: "rejected core (renders ?w1) (stored ?w1) wrongs = Some f'"
    using assms(4) by simp
  have an: "nonblank (answers ?w1) = wrongs @ rest"
    using assms(3) by simp
  from delete_loop_wrongs [OF len wr an, of "[]"]
  obtain w' where w': "delete_loop core [0, 1, 2] ?w1 = (Inr False, w')"
    "stored w' = f'" "nonblank (answers w') = rest"
    "password_prompts (trace w') = password_prompts (trace w) + 3"
    using assms(2) by auto
  have "delete_credentials core g w
          = (Inl Abort, emit (EvPrint ''Too many incorrect attempts.'') w')"
    using assms(1) q w'(1) by (simp add: delete_credentials_def upt_0_3)
  with w' show ?thesis
    by (simp add: emit_def)
qed

lemma split_attempts:
  assumes "k < 3"
  shows "\<exists>i is3. [0::nat, 1, 2] = take k [0, 1, 2] @ i # is3 \<and> length (take k [0::nat, 1, 2]) = k"
proof -
  from assms have "k = 0 \<or> k = 1 \<or> k = 2" by auto
  then show ?thesis by auto
qed

lemma update_password_stops_prompting:
  assumes "CREDENTIALS_EXIST g" and "length wrongs < 3"
    and "nonblank (answers w) = wrongs @ good # rest"
    and "rejected core (renders w) (stored w) wrongs = Some f'"
    and "core_load core f' good = Inr cm"
  shows "password_prompts (trace (snd (update_password core g w)))
           = password_prompts (trace w) + length wrongs + 1"
proof -
  from split_attempts [OF assms(2)] obtain i is3 where
    s: "[0::nat, 1, 2] = take (length wrongs) [0, 1, 2] @ i # is3"
    and len: "length wrongs = length (take (length wrongs) [0::nat, 1, 2])"
    by auto
  from current_password_loop_wrongs [OF len assms(4,3), of "i # is3"]
  obtain w' where w': "current_password_loop core [0, 1, 2] w
                         = current_password_loop core (i # is3) w'"
    "stored w' = f'" "nonblank (answers w') = good # rest"
    "password_prompts (trace w') = password_prompts (trace w) + length wrongs"
    using s by auto
  have l: "core_load core (stored w') good = Inr cm"
    using w'(2) assms(5) by simp
  from current_password_loop_first [OF w'(3) l, of i is3]
  obtain ys where f: "current_password_loop core (i # is3) w' =
      (Inr (Some (good, cm)),
       w'\<lparr>answers := ys,
          trace := trace w' @ [EvPrompt (current_password_prompt i), EvLoad (stored w') good]\<rparr>)"
    by auto
  let ?w2 = "w'\<lparr>answers := ys,
        trace := trace w' @ [EvPrompt (current_password_prompt i), EvLoad (stored w') good]\<rparr>"
  from f w'(1) have "update_password core g w = set_new_password core (Some (good, cm)) ?w2"
    using assms(1) by (simp add: update_password_def upt_0_3)
  then show ?thesis
    using w'(4) by (simp add: password_prompts_set_new_password)
qed

lemma delete_credentials_stops_prompting:
  assumes "CREDENTIALS_EXIST g" and "length wrongs < 3"
    and "nonblank (answers w) = wrongs @ good # rest"
    and "rejected core (renders w) (stored w) wrongs = Some f'"
    and "core_load core f' good = Inr cm"
    and "confirms w = True # cs"
  shows "password_prompts (trace (snd (delete_credentials core g w)))
           = password_prompts (trace w) + length wrongs + 1"
proof -
  let ?w1 = "w\<lparr>confirms := cs,
     trace := trace w @ [EvConfirm ''Are you sure you want to delete your credentials?'']\<rparr>"
  have q: "typer_confirm ''Are you sure you want to delete your credentials?'' w = (Inr True, ?w1)"
    using assms(6) by (rule typer_confirm_answer)
  from split_attempts [OF assms(2)] obtain i is3 where
    s: "[0::nat, 1, 2] = take (length wrongs) [0, 1, 2] @ i # is3"
    and len: "length wrongs = length (take (length wrongs) [0::nat, 1, 2])"
    by auto
  have wr: "rejected core (renders ?w1) (stored ?w1) wrongs = Some f'"
    using assms(4) by simp
  have an: "nonblank (answers ?w1) = wrongs @ good # rest"
    using assms(3) by simp
  from delete_loop_wrongs [OF len wr an, of "i # is3"]
  obtain w' where w': "delete_loop core [0, 1, 2] ?w1 = delete_loop core (i # is3) w'"
    "stored w' = f'" "nonblank (answers w') = good # rest"
    "password_prompts (trace w') = password_prompts (trace w) + length wrongs"
    using s by auto
  have f: "password_prompts (trace (snd (delete_loop core (i # is3) w')))
             = password_prompts (trace w') + 1"
    using w'(2,3) assms(5) by (intro delete_loop_first) simp_all
  obtain r2 w2 where l: "delete_loop core [0, 1, 2] ?w1 = (r2, w2)"
    by (cases "delete_loop core [0, 1, 2] ?w1")
  have w2: "password_prompts (trace w2) = password_prompts (trace w) + length wrongs + 1"
    using f w'(1,4) l by simp
  have c: "password_prompts (trace (emit (EvPrint ''Too many incorrect attempts.'') w2))
             = password_prompts (trace w2)"
    by (simp add: emit_def)
  show ?thesis
    using assms(1) q l w2 c
    by (simp add: delete_credentials_def upt_0_3 split: sum.splits bool.splits)
qed

text \<open>
  Claim C7. A run of \<open>update_password\<close> or of \<open>delete_credentials\<close> asks for the current
  password at most three times, whatever the manager and the user do. When three
  answers in a row are rejected, that is, \<open>get_exisiting_cm\<close> returns \<open>None\<close> for each,
  the command prints \<open>Too many incorrect attempts.\<close> last and raises \<open>typer.Abort\<close>: it
  has read those three answers and no more, and has neither saved nor deleted beyond
  what \<open>get_exisiting_cm\<close> did. When fewer than three rejected answers are followed by
  one that opens the file, the command asks exactly once per answer up to that one and
  never again for the current password. The answers are the lines that are not empty:
  an empty line is asked again inside the same call of \<open>typer.prompt\<close>.
\<close>

theorem at_most_three_password_prompts:
  "password_prompts (trace (snd (update_password core g w)))
           \<le> password_prompts (trace w) + 3
    \<and> password_prompts (trace (snd (delete_credentials core g w)))
           \<le> password_prompts (trace w) + 3
    \<and> (CREDENTIALS_EXIST g \<longrightarrow> length wrongs = 3 \<longrightarrow>
       nonblank (answers w) = wrongs @ rest \<longrightarrow>
       rejected core (renders w) (stored w) wrongs = Some f' \<longrightarrow>
         fst (update_password core g w) = Inl Abort
         \<and> last (trace (snd (update_password core g w)))
             = EvPrint ''Too many incorrect attempts.''
         \<and> stored (snd (update_password core g w)) = f'
         \<and> nonblank (answers (snd (update_password core g w))) = rest
         \<and> password_prompts (trace (snd (update_password core g w)))
             = password_prompts (trace w) + 3)
    \<and> (CREDENTIALS_EXIST g \<longrightarrow> length wrongs = 3 \<longrightarrow>
       nonblank (answers w) = wrongs @ rest \<longrightarrow>
       rejected core (renders w) (stored w) wrongs = Some f' \<longrightarrow> confirms w = True # cs \<longrightarrow>
         fst (delete_credentials core g w) = Inl Abort
         \<and> last (trace (snd (delete_credentials core g w)))
             = EvPrint ''Too many incorrect attempts.''
         \<and> stored (snd (delete_credentials core g w)) = f'
         \<and> nonblank (answers (snd (delete_credentials core g w))) = rest
         \<and> password_prompts (trace (snd (delete_credentials core g w)))
             = password_prompts (trace w) + 3)
    \<and> (CREDENTIALS_EXIST g \<longrightarrow> length wrongs < 3 \<longrightarrow>
       nonblank (answers w) = wrongs @ good # rest \<longrightarrow>
       rejected core (renders w) (stored w) wrongs = Some f' \<longrightarrow>
       core_load core f' good = Inr cm \<longrightarrow>
         password_prompts (trace (snd (update_password core g w)))
           = password_prompts (trace w) + length wrongs + 1)
    \<and> (CREDENTIALS_EXIST g \<longrightarrow> length wrongs < 3 \<longrightarrow>
       nonblank (answers w) = wrongs @ good # rest \<longrightarrow>
       rejected core (renders w) (stored w) wrongs = Some f' \<longrightarrow>
       core_load core f' good = Inr cm \<longrightarrow> confirms w = True # cs \<longrightarrow>
         password_prompts (trace (snd (delete_credentials core g w)))
           = password_prompts (trace w) + length wrongs + 1)"
  using password_prompts_update_password [of core g w]
    password_prompts_delete_credentials [of core g w]
    update_password_too_many [of g wrongs w rest core f']
    delete_credentials_too_many [of g wrongs w rest core f' cs]
    update_password_stops_prompting [of g wrongs w good rest core f' cm]
    delete_credentials_stops_prompting [of g wrongs w good rest core f' cm cs]
  by blast

theorem at_most_three_password_prompts_witness:
  "fst (update_password example_core
          (import_module (world0 (Some (Sealed ''pw'' [])) [] []))
          (world0 (Some (Sealed ''pw'' [])) [''a'', ''b'', ''c'', ''pw''] [True])) = Inl Abort
   \<and> last (trace (snd (update_password example_core
          (import_module (world0 (Some (Sealed ''pw'' [])) [] []))
          (world0 (Some (Sealed ''pw'' [])) [''a'', ''b'', ''c'', ''pw''] [True]))))
       = EvPrint ''Too many incorrect attempts.''
   \<and> nonblank (answers (snd (update_password example_core
          (import_module (world0 (Some (Sealed ''pw'' [])) [] []))
          (world0 (Some (Sealed ''pw'' [])) [''a'', ''b'', ''c'', ''pw''] [True])))) = [''pw'']
   \<and> password_prompts (trace (snd (update_password example_core
          (import_module (world0 (Some (Sealed ''pw'' [])) [] []))
          (world0 (Some (Sealed ''pw'' [])) [''a'', ''b'', ''c'', ''pw''] [True])))) = 3
   \<and> fst (delete_credentials example_core
          (import_module (world0 (Some (Sealed ''pw'' [])) [] []))
          (world0 (Some (Sealed ''pw'' [])) [''a'', ''b'', ''c'', ''pw''] [True])) = Inl Abort
   \<and> stored (snd (delete_credentials example_core
          (import_module (world0 (Some (Sealed ''pw'' [])) [] []))
          (world0 (Some (Sealed ''pw'' [])) [''a'', ''b'', ''c'', ''pw''] [True])))
       = Some (Sealed ''pw'' [])
   \<and> password_prompts (trace (snd (delete_credentials example_core
          (import_module (world0 (Some (Sealed ''pw'' [])) [] []))
          (world0 (Some (Sealed ''pw'' [])) [''a'', ''b'', ''c'', ''pw''] [True])))) = 3
   \<and> password_prompts (trace (snd (update_password example_core
          (import_module (world0 (Some (Sealed ''pw'' [])) [] []))
          (world0 (Some (Sealed ''pw'' [])) [''a'', ''pw'', ''n'', ''n''] [True])))) = 2
   \<and> password_prompts (trace (snd (delete_credentials example_core
          (import_module (world0 (Some (Sealed ''pw'' [])) [] []))
          (world0 (Some (Sealed ''pw'' [])) [''a'', ''pw'', ''n'', ''n''] [True])))) = 2"
proof -
  note a = at_most_three_password_prompts
    [where wrongs = "[''a'', ''b'', ''c'']" and core = example_core
       and w = "world0 (Some (Sealed ''pw'' [])) [''a'', ''b'', ''c'', ''pw''] [True]"
       and g = "import_module (world0 (Some (Sealed ''pw'' [])) [] [])"
       and rest = "[''pw'']" and cs = "[]" and good = "''pw''" and cm = "(''pw'', [])"
       and f' = "Some (Sealed ''pw'' [])"]
  note b = at_most_three_password_prompts
    [where wrongs = "[''a'']" and core = example_core
       and w = "world0 (Some (Sealed ''pw'' [])) [''a'', ''pw'', ''n'', ''n''] [True]"
       and g = "import_module (world0 (Some (Sealed ''pw'' [])) [] [])"
       and rest = "[''n'', ''n'']" and cs = "[]" and good = "''pw''" and cm = "(''pw'', [])"
       and f' = "Some (Sealed ''pw'' [])"]
  from a b show ?thesis
    by (simp add: world0_def example_core_def import_module_def nonblank_def)
qed

section \<open>The store of the specification\<close>

subsection \<open>The example components meet the contracts\<close>







text \<open>
  Keys of a fixed length are finitely many and passwords are not: whatever the key
  derivation, under any salt and parameters two different passwords derive the same key.
\<close>

lemma fixed_length_keys_collide:
  assumes "finite (UNIV :: 'k set)"
  shows "\<exists>p p'. p \<noteq> p' \<and>
           kdf_derive (P :: ('k, 'c, 'p, 'f) primitives) p params = kdf_derive P p' params"
proof (rule ccontr)
  assume "\<not> (\<exists>p p'. p \<noteq> p' \<and> kdf_derive P p params = kdf_derive P p' params)"
  then have "inj (\<lambda>p. kdf_derive P p params)"
    by (auto simp: inj_on_def)
  moreover have "finite (range (\<lambda>p. kdf_derive P p params))"
    using assms by (rule finite_subset [rotated]) simp
  ultimately have "finite (UNIV :: string set)"
    by (rule finite_imageD [rotated])
  then show False
    using infinite_UNIV_listI by blast
qed

subsection \<open>Loading under another password\<close>






subsection \<open>Changing the password\<close>





subsection \<open>Writing the file\<close>

lemma run_steps_no_rename:
  "Rename \<notin> set steps \<Longrightarrow> at_path (run_steps steps d) = at_path d"
proof (induction steps arbitrary: d)
  case Nil
  show ?case by (simp add: run_steps_def)
next
  case (Cons s steps)
  from Cons.prems have "s \<noteq> Rename" and r: "Rename \<notin> set steps" by auto
  then have "at_path (do_step s d) = at_path d"
    by (cases s) simp_all
  moreover have "run_steps (s # steps) d = run_steps steps (do_step s d)"
    by (simp add: run_steps_def)
  ultimately show ?case
    using Cons.IH [OF r, of "do_step s d"] by simp
qed

lemma run_steps_write:
  "at_temp d = Some acc \<Longrightarrow>
   run_steps (map WriteChunk content) d = d\<lparr>at_temp := Some (acc @ content)\<rparr>"
proof (induction content arbitrary: d acc)
  case Nil
  then show ?case by (simp add: run_steps_def)
next
  case (Cons b content)
  have "run_steps (map WriteChunk (b # content)) d
          = run_steps (map WriteChunk content) (d\<lparr>at_temp := Some (acc @ [b])\<rparr>)"
    using Cons.prems by (simp add: run_steps_def)
  also have "\<dots> = d\<lparr>at_temp := Some ((acc @ [b]) @ content)\<rparr>"
    using Cons.IH [of "d\<lparr>at_temp := Some (acc @ [b])\<rparr>" "acc @ [b]"] by simp
  finally show ?case by simp
qed

lemma run_steps_save:
  "run_steps (save_steps content) d = d\<lparr>at_path := Some content, at_temp := None\<rparr>"
proof -
  have "run_steps (map WriteChunk content) (d\<lparr>at_temp := Some []\<rparr>)
          = d\<lparr>at_temp := Some content\<rparr>"
    using run_steps_write [of "d\<lparr>at_temp := Some []\<rparr>" "[]" content] by simp
  then show ?thesis
    by (simp add: save_steps_def run_steps_def)
qed

lemma rename_is_last:
  assumes "n < length (save_steps content)"
  shows "Rename \<notin> set (take n (save_steps content))"
proof -
  have b: "butlast (save_steps content) = CreateTemp # map WriteChunk content @ [Flush]"
    by (simp add: save_steps_def butlast_append)
  have "take n (save_steps content) = take n (butlast (save_steps content))"
    using assms by (simp add: take_butlast)
  moreover have "Rename \<notin> set (butlast (save_steps content))"
    unfolding b by auto
  ultimately show ?thesis
    by (metis in_set_takeD)
qed

text \<open>
  Claim C5, on the write discipline of the specification. Interrupt \<open>save\<close> after any
  number of its steps: before the last step, the rename, the target path holds
  what it held before, untouched; once every step has run it holds the complete new
  file. So at every point the path holds the old file or the new one, never a part.
\<close>

theorem save_is_atomic:
  "(n < length (save_steps (manager_save P m fresh_nonce)) \<longrightarrow>
      at_path (save_interrupted P m fresh_nonce n d) = at_path d)
   \<and> (length (save_steps (manager_save P m fresh_nonce)) \<le> n \<longrightarrow>
      at_path (save_interrupted P m fresh_nonce n d) = Some (manager_save P m fresh_nonce))
   \<and> (at_path (save_interrupted P m fresh_nonce n d) = at_path d
      \<or> at_path (save_interrupted P m fresh_nonce n d) = Some (manager_save P m fresh_nonce))"
proof -
  let ?steps = "save_steps (manager_save P m fresh_nonce)"
  have before: "n < length ?steps \<longrightarrow> at_path (save_interrupted P m fresh_nonce n d) = at_path d"
    by (simp add: save_interrupted_def run_steps_no_rename rename_is_last)
  have after: "length ?steps \<le> n \<longrightarrow>
      at_path (save_interrupted P m fresh_nonce n d) = Some (manager_save P m fresh_nonce)"
    by (simp add: save_interrupted_def run_steps_save)
  from before after show ?thesis
    by (cases "n < length ?steps") simp_all
qed

theorem save_is_atomic_witness:
  "at_path (save_interrupted chunked (manager_create chunked ''pw'' params0) [9] 3
              \<lparr>at_path = Some [0], at_temp = None\<rparr>) = Some [0]
   \<and> at_path (save_interrupted chunked (manager_create chunked ''pw'' params0) [9] 9
              \<lparr>at_path = Some [0], at_temp = None\<rparr>) = Some [1, 1, 2, 3, 4, 9]"
  using save_is_atomic [of 3 chunked "manager_create chunked ''pw'' params0" "[9]"
                           "\<lparr>at_path = Some [0], at_temp = None\<rparr>"]
    save_is_atomic [of 9 chunked "manager_create chunked ''pw'' params0" "[9]"
                       "\<lparr>at_path = Some [0], at_temp = None\<rparr>"]
  by (simp add: save_steps_def manager_save_def manager_create_def chunked_def params0_def
      format_version_def)

end
